theory Spec2Isabelle
  imports Main "HOL-Library.AList" "HOL-Library.Char_ord" "HOL-Library.List_Lexorder"
    "HOL-Library.Product_Lexorder"
begin

section \<open>Python values, dictionaries and exceptions\<close>

text \<open>
  The driver in \<^verbatim>\<open>python/triton/compiler/compiler.py\<close> moves Python objects between
  collaborators that are not part of the file (the backend, the cache manager, the
  device driver, \<^verbatim>\<open>re\<close>, \<^verbatim>\<open>json\<close>, \<^verbatim>\<open>hashlib\<close>). The values it handles itself are
  integers, strings, tuples and dictionaries. A dictionary is an association list in
  insertion order: \<open>AList.update\<close> is Python's \<^verbatim>\<open>d[k] = v\<close> (an existing key keeps its
  place, a new key goes last) and \<open>map_of\<close> is \<^verbatim>\<open>d.get(k)\<close>. Floating point values are
  left out.
\<close>

datatype pyval =
    VNone
  | VBool bool
  | VInt int
  | VStr string
  | VTuple "pyval list"
  | VList "pyval list"

type_synonym dict = "(string \<times> pyval) list"

text \<open>
  Every exception the driver can raise is a value. \<open>External\<close> is an exception raised
  inside a collaborator (a stage function, the frontend, the backend, the device driver,
  \<^verbatim>\<open>json\<close>); the collaborators return \<open>string + 'a\<close> and the driver passes the failure on.
\<close>

datatype error =
    AssertionError string
  | AttributeError string
  | KeyError string
  | ValueError string
  | TypeError string
  | FileNotFoundError string
  | OutOfResources pyval int string
  | External string

definition external :: "string + 'a \<Rightarrow> error + 'a" where
  "external r = (case r of Inl msg \<Rightarrow> Inl (External msg) | Inr v \<Rightarrow> Inr v)"

text \<open>\<^verbatim>\<open>{**a, **b}\<close>: the entries of \<open>b\<close> are assigned into \<open>a\<close> in order.\<close>

definition dict_merge :: "('k \<times> 'v) list \<Rightarrow> ('k \<times> 'v) list \<Rightarrow> ('k \<times> 'v) list" where
  "dict_merge a b = fold (\<lambda>(k, v). AList.update k v) b a"

text \<open>\<^verbatim>\<open>enumerate(xs)\<close> as the list of pairs a dictionary comprehension is built from.\<close>

definition enumerate_from0 :: "'a list \<Rightarrow> (int \<times> 'a) list" where
  "enumerate_from0 xs = zip (map int [0..<length xs]) xs"

section \<open>Text: characters, \<^verbatim>\<open>split\<close>, \<^verbatim>\<open>strip\<close>, \<^verbatim>\<open>int\<close>\<close>

text \<open>
  A Python \<^verbatim>\<open>str\<close> is a sequence of code points; the model covers the code points below
  256, one \<open>char\<close> each. Among them \<^verbatim>\<open>\s\<close> of a \<^verbatim>\<open>str\<close> pattern and \<^verbatim>\<open>str.strip()\<close>
  take the characters 9 to 13, 28 to 32, 133 and 160 as whitespace, and \<^verbatim>\<open>\d\<close> the
  digits 0 to 9.
\<close>

definition is_space :: "char \<Rightarrow> bool" where
  "is_space c = ((of_char c :: nat) \<in> {9, 10, 11, 12, 13, 28, 29, 30, 31, 32, 133, 160})"

definition is_digit :: "char \<Rightarrow> bool" where
  "is_digit c = (48 \<le> (of_char c :: nat) \<and> (of_char c :: nat) \<le> 57)"

fun split_on :: "char \<Rightarrow> string \<Rightarrow> string list" where
  "split_on sep [] = [[]]"
| "split_on sep (c # cs) =
     (if c = sep then [] # split_on sep cs
      else (case split_on sep cs of [] \<Rightarrow> [[c]] | w # ws \<Rightarrow> (c # w) # ws))"

definition strip :: "string \<Rightarrow> string" where
  "strip s = rev (dropWhile is_space (rev (dropWhile is_space s)))"

text \<open>
  \<^verbatim>\<open>int(s)\<close> on a string of decimal digits. (The interpreter's optional limit on the
  length of the digit string is not modelled.)
\<close>

definition int_of_digits :: "string \<Rightarrow> int" where
  "int_of_digits ds = foldl (\<lambda>a c. 10 * a + (int (of_char c) - 48)) 0 ds"

section \<open>The attribute patterns of \<^verbatim>\<open>_get_num_warps_from_ir_str\<close>\<close>

text \<open>
  The two patterns of lines 84 and 94 are
  \<^verbatim>\<open>"triton_gpu.num-warps"\s?=\s?(\d+)\s?:\<close> and
  \<^verbatim>\<open>"triton_gpu.num-warp-groups-per-cta"\s?=\s?(\d+)\s?:\<close>. Both read: a double quote
  and \<^verbatim>\<open>triton_gpu\<close>; one character that is not a newline (the dot is not escaped); the
  attribute's name and a double quote; an optional whitespace character; \<^verbatim>\<open>=\<close>; an
  optional whitespace character; one or more digits (the group); an optional whitespace
  character; a colon. The character classes that follow each other are disjoint, so the
  greedy choice is the only one that can succeed and the matcher needs no backtracking.
  \<open>match_attr name s\<close> matches the pattern at the start of \<open>s\<close> and returns the group
  and the text after the match.
\<close>

fun strip_prefix :: "string \<Rightarrow> string \<Rightarrow> string option" where
  "strip_prefix [] s = Some s"
| "strip_prefix (p # ps) [] = None"
| "strip_prefix (p # ps) (c # cs) = (if p = c then strip_prefix ps cs else None)"

fun opt_space :: "string \<Rightarrow> string" where
  "opt_space [] = []"
| "opt_space (c # cs) = (if is_space c then cs else c # cs)"

definition match_attr :: "string \<Rightarrow> string \<Rightarrow> (string \<times> string) option" where
  "match_attr name s =
     (case strip_prefix (CHR 0x22 # ''triton_gpu'') s of
        None \<Rightarrow> None
      | Some r1 \<Rightarrow>
          (case r1 of
             [] \<Rightarrow> None
           | c # r2 \<Rightarrow>
               if c = CHR 0x0A then None
               else
                 (case strip_prefix (name @ [CHR 0x22]) r2 of
                    None \<Rightarrow> None
                  | Some r3 \<Rightarrow>
                      (case strip_prefix ''='' (opt_space r3) of
                         None \<Rightarrow> None
                       | Some r4 \<Rightarrow>
                           (let r5 = opt_space r4;
                                ds = takeWhile is_digit r5;
                                r6 = dropWhile is_digit r5
                            in if ds = [] then None
                               else
                                 (case strip_prefix '':'' (opt_space r6) of
                                    None \<Rightarrow> None
                                  | Some r7 \<Rightarrow> Some (ds, r7)))))))"

lemma strip_prefix_length: "strip_prefix p s = Some r \<Longrightarrow> length s = length p + length r"
  by (induction p s rule: strip_prefix.induct) (auto split: if_splits)

lemma opt_space_length: "length (opt_space s) \<le> length s"
  by (cases s) auto

lemma match_attr_shorter:
  assumes "match_attr name s = Some (ds, r)"
  shows "length r < length s"
proof -
  from assms obtain r1 where r1: "strip_prefix (CHR 0x22 # ''triton_gpu'') s = Some r1"
    by (auto simp: match_attr_def split: option.splits)
  from strip_prefix_length [OF r1] have "length r1 < length s"
    by simp
  moreover from assms r1 obtain c r2 where r2: "r1 = c # r2"
    by (cases r1) (auto simp: match_attr_def)
  moreover from assms r1 r2 obtain r3 where r3: "strip_prefix (name @ [CHR 0x22]) r2 = Some r3"
    by (auto simp: match_attr_def split: option.splits if_splits)
  moreover from assms r1 r2 r3 obtain r4 where r4: "strip_prefix ''='' (opt_space r3) = Some r4"
    by (auto simp: match_attr_def split: option.splits if_splits)
  moreover from assms r1 r2 r3 r4
  have r7: "strip_prefix '':'' (opt_space (dropWhile is_digit (opt_space r4))) = Some r"
    by (auto simp: match_attr_def Let_def split: option.splits if_splits)
  moreover have "length (dropWhile is_digit (opt_space r4)) \<le> length (opt_space r4)"
    by (rule length_dropWhile_le)
  ultimately show ?thesis
    using strip_prefix_length [OF r3] strip_prefix_length [OF r4] strip_prefix_length [OF r7]
      opt_space_length [of r3] opt_space_length [of r4]
      opt_space_length [of "dropWhile is_digit (opt_space r4)"]
    by simp
qed

text \<open>
  \<^verbatim>\<open>re.findall\<close> with one group: the groups of the non-overlapping matches, scanning
  from the left; after a match the scan resumes where the match ended.
\<close>

function findall_attr :: "string \<Rightarrow> string \<Rightarrow> string list" where
  "findall_attr name [] = []"
| "findall_attr name (c # cs) =
     (case match_attr name (c # cs) of
        Some (ds, r) \<Rightarrow> ds # findall_attr name r
      | None \<Rightarrow> findall_attr name cs)"
  by pat_completeness auto
termination
  by (relation "measure (\<lambda>(name, s). length s)") (auto dest: match_attr_shorter)

definition get_num_warps_from_ir_str :: "string \<Rightarrow> error + int" where
  "get_num_warps_from_ir_str src =
     (let num_warps_matches = findall_attr ''num-warps'' src
      in if length num_warps_matches \<noteq> 1
         then Inl (AssertionError ''Expected exactly one match for num_warps'')
         else
           (let num_warps = int_of_digits (num_warps_matches ! 0);
                num_warp_groups_matches = findall_attr ''num-warp-groups-per-cta'' src
            in if \<not> (length num_warp_groups_matches = 0 \<or> length num_warp_groups_matches = 1)
               then Inl (AssertionError
                 ''Expected triton_gpu.num-warp-groups-per-cta attribute to appear 0 or 1 times'')
               else if num_warp_groups_matches \<noteq> []
                 then Inr (num_warps * int_of_digits (num_warp_groups_matches ! 0))
                 else Inr num_warps))"

section \<open>Source descriptors\<close>

text \<open>
  \<^verbatim>\<open>InstanceDescriptor\<close> (lines 20 to 29): four sets of argument positions, each
  \<^verbatim>\<open>None\<close> by default. A set is the list of its elements in iteration order.
\<close>

record InstanceDescriptor =
  divisible_by_16 :: "int list option"
  equal_to_1 :: "int list option"
  ids_of_folded_args :: "int list option"
  divisible_by_8 :: "int list option"

text \<open>What the driver reads of a jitted function: \<^verbatim>\<open>fn.cache_key\<close> and \<^verbatim>\<open>fn.__name__\<close>.\<close>

record JITFunction =
  fn_cache_key :: string
  fn_name :: string

text \<open>The \<^verbatim>\<open>signature\<close> argument is a string or a dictionary (or \<^verbatim>\<open>None\<close>).\<close>

datatype signature_arg = SigStr string | SigDict "(int \<times> string) list"

record SpecializationDescriptor =
  sd_config :: InstanceDescriptor
  sd_signature :: "(int \<times> string) list option"
  sd_constants :: "(pyval \<times> pyval) list"

record ASTSource =
  ast_fn :: JITFunction
  ast_ext :: string
  ast_name :: string
  ast_signature :: "(int \<times> string) list option"
  ast_constants :: "(pyval \<times> pyval) list"
  ast_config :: InstanceDescriptor

record IRSource =
  ir_path :: string
  ir_ext :: string
  ir_src :: string
  ir_name :: string
  ir_signature :: "(int \<times> string) list"

datatype source = Ast ASTSource | Ir IRSource

fun src_ext :: "source \<Rightarrow> string" where
  "src_ext (Ast a) = ast_ext a"
| "src_ext (Ir s) = ir_ext s"

fun src_name :: "source \<Rightarrow> string" where
  "src_name (Ast a) = ast_name a"
| "src_name (Ir s) = ir_name s"

section \<open>Collaborators\<close>

text \<open>
  What a cache entry holds: a module as a stage returned it, or text.
\<close>

datatype 'm artifact = Module 'm | Text string

text \<open>
  The backend (\<^verbatim>\<open>CUDABackend\<close>, not part of the file) with the methods the driver calls.
  \<^verbatim>\<open>add_stages\<close> fills the empty dictionary \<^verbatim>\<open>stages\<close>: its result is that dictionary, in
  insertion order. A stage function takes the module and the metadata dictionary, which
  it may change in place: it returns the next module and the metadata as it left them.
  \<open>options_hash\<close> is the \<^verbatim>\<open>hash()\<close> method of the options object that \<^verbatim>\<open>parse_options\<close>
  built; the options object is the dictionary of its attributes.
\<close>

record 'm backend =
  backend_hash :: string
  parse_options :: "dict \<Rightarrow> string + dict"
  options_hash :: "dict \<Rightarrow> string"
  add_stages ::
    "pyval \<Rightarrow> dict \<Rightarrow> string + (string \<times> ('m \<Rightarrow> dict \<Rightarrow> string + 'm \<times> dict)) list"
  make_launcher_stub :: "source \<Rightarrow> dict \<Rightarrow> string + string"

text \<open>
  Everything else the driver calls and the file does not define. \<open>str_frozenset\<close> is
  the interpreter's rendering, inside an f-string, of a \<^verbatim>\<open>frozenset\<close> built from the given
  list of items in the given order; \<open>str_int_lists\<close>, \<open>str_dict_values\<close> and \<open>str_dict\<close>
  render a list of integer lists, a \<^verbatim>\<open>dict_values\<close> view and a dictionary.
  \<open>prototype_search ext\<close> is \<^verbatim>\<open>re.search(prototype_pattern[ext], _, re.MULTILINE)\<close> with
  its groups 1 and 2, \<open>arg_type_findall ext\<close> is \<^verbatim>\<open>re.findall(arg_type_pattern[ext], _)\<close>.
  \<open>glob_siblings\<close> lists the files \<^verbatim>\<open>metadata_path.parent.glob(stem.*)\<close> finds, and
  \<open>load_launcher\<close> imports the launcher stub and takes its \<^verbatim>\<open>launch\<close> entry point.
\<close>

record ('m, 'w) externals =
  md5_hexdigest :: "string \<Rightarrow> string"
  get_env_vars :: "(string \<times> string) list"
  str_frozenset :: "(string \<times> string) list \<Rightarrow> string"
  str_int_lists :: "int list list \<Rightarrow> string"
  str_dict_values :: "string list \<Rightarrow> string"
  str_dict :: "(pyval \<times> pyval) list \<Rightarrow> string"
  path_suffix :: "string \<Rightarrow> string"
  prototype_search :: "string \<Rightarrow> string \<Rightarrow> (string \<times> string) option"
  arg_type_findall :: "string \<Rightarrow> string \<Rightarrow> string list"
  module_text :: "'m \<Rightarrow> string"
  ast_to_ttir :: "JITFunction \<Rightarrow> SpecializationDescriptor \<Rightarrow> dict \<Rightarrow> string + 'm"
  parse_mlir_module :: "string \<Rightarrow> string + 'm"
  json_dumps :: "dict \<Rightarrow> string + string"
  json_loads :: "string \<Rightarrow> string + dict"
  CUDABackend :: "pyval \<Rightarrow> string + 'm backend"
  glob_siblings :: "(string \<rightharpoonup> 'm artifact) \<Rightarrow> string \<Rightarrow> string list"
  load_launcher :: "string \<Rightarrow> string + 'w"
  binary_ext :: string

text \<open>\<^verbatim>\<open>Path(p).read_text()\<close> against the files of the world.\<close>

definition read_text ::
  "('m, 'w) externals \<Rightarrow> (string \<rightharpoonup> 'm artifact) \<Rightarrow> string \<Rightarrow> error + string" where
  "read_text X fs p =
     (case fs p of
        None \<Rightarrow> Inl (FileNotFoundError p)
      | Some (Text s) \<Rightarrow> Inr s
      | Some (Module m) \<Rightarrow> Inr (module_text X m))"

section \<open>Constructing the descriptors (lines 105 to 115 and 131 to 140)\<close>

definition ASTSource_init ::
  "JITFunction \<Rightarrow> signature_arg option \<Rightarrow> (pyval \<times> pyval) list option \<Rightarrow> InstanceDescriptor
     \<Rightarrow> ASTSource" where
  "ASTSource_init fn signature constants config =
     \<lparr> ast_fn = fn,
       ast_ext = ''ttir'',
       ast_name = fn_name fn,
       ast_signature =
         (case signature of
            None \<Rightarrow> None
          | Some (SigStr s) \<Rightarrow> Some (enumerate_from0 (map strip (split_on CHR '','' s)))
          | Some (SigDict d) \<Rightarrow> Some d),
       ast_constants = (case constants of None \<Rightarrow> [] | Some c \<Rightarrow> c),
       ast_config = config \<rparr>"

text \<open>
  \<^verbatim>\<open>convert_type_repr\<close>: \<open>find_ptr x\<close> is group 1 of
  \<^verbatim>\<open>re.search(r'!tt\.ptr<([^,]+)', x)\<close>, the longest run of characters other than a comma
  after the leftmost \<^verbatim>\<open>!tt.ptr<\<close> that is followed by such a character.
\<close>

fun find_ptr :: "string \<Rightarrow> string option" where
  "find_ptr [] = None"
| "find_ptr (c # cs) =
     (case strip_prefix ''!tt.ptr<'' (c # cs) of
        None \<Rightarrow> find_ptr cs
      | Some r \<Rightarrow>
          (let g = takeWhile (\<lambda>x. x \<noteq> CHR '','') r
           in if g \<noteq> [] then Some g else find_ptr cs))"

lemma find_ptr_shorter: "find_ptr x = Some g \<Longrightarrow> length g < length x"
proof (induction x)
  case Nil
  then show ?case by simp
next
  case (Cons c cs)
  show ?case
  proof (cases "strip_prefix ''!tt.ptr<'' (c # cs)")
    case None
    with Cons show ?thesis by auto
  next
    case (Some r)
    have "length (takeWhile (\<lambda>x. x \<noteq> CHR '','') r) \<le> length r"
      by (rule length_takeWhile_le)
    with Cons Some strip_prefix_length [OF Some] show ?thesis
      by (auto simp: Let_def split: if_splits)
  qed
qed

function convert_type_repr :: "string \<Rightarrow> string" where
  "convert_type_repr x =
     (case find_ptr x of
        Some g \<Rightarrow> CHR ''*'' # convert_type_repr g
      | None \<Rightarrow> x)"
  by pat_completeness auto
termination
  by (relation "measure length") (auto dest: find_ptr_shorter)

definition IRSource_init ::
  "('m, 'w) externals \<Rightarrow> (string \<rightharpoonup> 'm artifact) \<Rightarrow> string \<Rightarrow> error + IRSource" where
  "IRSource_init X fs path =
     (let ext = drop 1 (path_suffix X path)
      in case read_text X fs path of
           Inl e \<Rightarrow> Inl e
         | Inr src \<Rightarrow>
             if ext \<notin> {''ttir'', ''ttgir'', ''ptx''} then Inl (KeyError ext)
             else
               (case prototype_search X ext src of
                  None \<Rightarrow> Inl (AttributeError ''group'')
                | Some (name, signature) \<Rightarrow>
                    Inr \<lparr> ir_path = path,
                          ir_ext = ext,
                          ir_src = src,
                          ir_name = name,
                          ir_signature =
                            enumerate_from0
                              (map convert_type_repr (arg_type_findall X ext signature)) \<rparr>))"

section \<open>The methods of the descriptors\<close>

text \<open>
  \<^verbatim>\<open>InstanceDescriptor.hash\<close>: \<^verbatim>\<open>sorted(x)\<close> of a field that is \<^verbatim>\<open>None\<close> raises \<^verbatim>\<open>TypeError\<close>.
\<close>

definition InstanceDescriptor_hash ::
  "('m, 'w) externals \<Rightarrow> InstanceDescriptor \<Rightarrow> error + string" where
  "InstanceDescriptor_hash X c =
     (case (divisible_by_16 c, equal_to_1 c, ids_of_folded_args c, divisible_by_8 c) of
        (Some a, Some b, Some f, Some e) \<Rightarrow>
          Inr (md5_hexdigest X (str_int_lists X [sort a, sort b, sort f, sort e]))
      | _ \<Rightarrow> Inl (TypeError ''NoneType object is not iterable''))"

fun src_hash :: "('m, 'w) externals \<Rightarrow> source \<Rightarrow> error + string" where
  "src_hash X (Ast a) =
     (case InstanceDescriptor_hash X (ast_config a) of
        Inl e \<Rightarrow> Inl e
      | Inr config_hash \<Rightarrow>
          (case ast_signature a of
             None \<Rightarrow> Inl (AttributeError ''values'')
           | Some sg \<Rightarrow>
               Inr (md5_hexdigest X
                 (fn_cache_key (ast_fn a) @ ''-'' @ config_hash @ ''-''
                    @ str_dict_values X (map snd sg) @ ''-'' @ str_dict X (ast_constants a)))))"
| "src_hash X (Ir s) = Inr (md5_hexdigest X (ir_src s))"

fun make_ir :: "('m, 'w) externals \<Rightarrow> source \<Rightarrow> dict \<Rightarrow> error + 'm" where
  "make_ir X (Ast a) options =
     external (ast_to_ttir X (ast_fn a)
       \<lparr> sd_config = ast_config a, sd_signature = ast_signature a,
         sd_constants = ast_constants a \<rparr> options)"
| "make_ir X (Ir s) options = external (parse_mlir_module X (ir_path s))"

text \<open>
  \<^verbatim>\<open>update_options\<close> (lines 125 to 126 and 151 to 153). The options object is changed in
  place: the result is the options as the call left them. \<^verbatim>\<open>options.num_warps = v\<close>
  assigns the attribute \<^verbatim>\<open>num_warps\<close>.
\<close>

fun update_options :: "source \<Rightarrow> dict \<Rightarrow> error + dict" where
  "update_options (Ast a) options = Inr options"
| "update_options (Ir s) options =
     (if ir_ext s = ''ttgir''
      then (case get_num_warps_from_ir_str (ir_src s) of
              Inl e \<Rightarrow> Inl e
            | Inr n \<Rightarrow> Inr (AList.update ''num_warps'' (VInt n) options))
      else Inr options)"

section \<open>The world: files, cache groups and the record of calls\<close>

text \<open>
  The calls the driver makes to the cache manager, the frontend, the stage functions and
  the backend's stub builder are recorded in the order they are made.
\<close>

datatype 'm event =
    is_GetGroup: GetGroup string string
  | is_MakeIR: MakeIR source dict
  | is_Invoke: Invoke string 'm dict
  | is_Put: Put string string "'m artifact"
  | is_PutGroup: PutGroup string string "(string \<times> string) list"
  | is_MakeLauncherStub: MakeLauncherStub source dict

text \<open>The format names of the stage functions called, in the order of the calls.\<close>

fun invoked_format :: "'m event \<Rightarrow> string option" where
  "invoked_format (Invoke fmt m md) = Some fmt"
| "invoked_format e = None"

definition invoked_formats :: "'m event list \<Rightarrow> string list" where
  "invoked_formats evs = List.map_filter invoked_format evs"

text \<open>What a recorded call stores in the files: a \<^verbatim>\<open>put\<close> writes its artifact.\<close>

fun stored :: "'m event \<Rightarrow> (string \<rightharpoonup> 'm artifact) \<Rightarrow> (string \<rightharpoonup> 'm artifact)" where
  "stored (Put run_hash name a) fs = fs(run_hash @ ''/'' @ name \<mapsto> a)"
| "stored e fs = fs"

record 'm world =
  files :: "string \<rightharpoonup> 'm artifact"
  groups :: "string \<times> string \<rightharpoonup> (string \<times> string) list"
  calls :: "'m event list"

definition log_call :: "'m event \<Rightarrow> 'm world \<Rightarrow> 'm world" where
  "log_call e w = w\<lparr>calls := calls w @ [e]\<rparr>"

text \<open>
  Modelled from the spec: the cache manager (\<^verbatim>\<open>get_cache_manager\<close>, \<^verbatim>\<open>get_group\<close>, \<^verbatim>\<open>put\<close>,
  \<^verbatim>\<open>put_group\<close> of \<^verbatim>\<open>runtime/cache.py\<close>) is not part of the file. Section 4.3 of the
  specification gives its contract: \<^verbatim>\<open>probe(runHash, groupName)\<close> returns the mapping of
  a group or a miss, \<^verbatim>\<open>put(runHash, data, artifactName)\<close> stores one artifact and returns
  its storage handle, \<^verbatim>\<open>putGroup(runHash, groupName, mapping)\<close> stores the mapping of a
  group. A mapping is stored whole and returned as it was stored. A storage handle is the
  path of the artifact under the run's hash.
\<close>

definition storage_handle :: "string \<Rightarrow> string \<Rightarrow> string" where
  "storage_handle run_hash name = run_hash @ ''/'' @ name"

definition get_group ::
  "string \<Rightarrow> string \<Rightarrow> 'm world \<Rightarrow> (string \<times> string) list option \<times> 'm world" where
  "get_group run_hash name w =
     (groups w (run_hash, name), log_call (GetGroup run_hash name) w)"

definition put :: "string \<Rightarrow> 'm artifact \<Rightarrow> string \<Rightarrow> 'm world \<Rightarrow> string \<times> 'm world" where
  "put run_hash data name w =
     (storage_handle run_hash name,
      log_call (Put run_hash name data)
        (w\<lparr>files := (files w)(storage_handle run_hash name \<mapsto> data)\<rparr>))"

definition put_group ::
  "string \<Rightarrow> string \<Rightarrow> (string \<times> string) list \<Rightarrow> 'm world \<Rightarrow> 'm world" where
  "put_group run_hash name g w =
     log_call (PutGroup run_hash name g) (w\<lparr>groups := (groups w)((run_hash, name) \<mapsto> g)\<rparr>)"

section \<open>The kernel handle (lines 209 to 269)\<close>

text \<open>
  \<^verbatim>\<open>CompiledKernel\<close>. \<open>metadata\<close> is the mapping read from the metadata file; the
  constructor also sets each of its entries as an attribute, so \<^verbatim>\<open>self.shared\<close> and
  \<^verbatim>\<open>self.name\<close> are read from it. \<open>h_module\<close> and \<open>h_function\<close> are the attributes
  \<^verbatim>\<open>module\<close> and \<^verbatim>\<open>function\<close>, \<open>None\<close> until the handle is bound. \<open>n_regs\<close> and \<open>n_spills\<close>
  hold what binding assigned.
\<close>

record ('w, 'k, 'f) CompiledKernel =
  c_wrapper :: 'w
  metadata :: dict
  asm :: "(string \<times> string) list"
  kernel :: string
  h_module :: "'k option"
  h_function :: "'f option"
  n_regs :: "int option"
  n_spills :: "int option"

text \<open>
  The dictionary comprehension of lines 230 to 233: each file is read and stored under
  its suffix without the dot.
\<close>

fun read_asm ::
  "('m, 'w) externals \<Rightarrow> (string \<rightharpoonup> 'm artifact) \<Rightarrow> string list \<Rightarrow> (string \<times> string) list
     \<Rightarrow> error + (string \<times> string) list" where
  "read_asm X fs [] acc = Inr acc"
| "read_asm X fs (f # rest) acc =
     (case read_text X fs f of
        Inl e \<Rightarrow> Inl e
      | Inr content \<Rightarrow> read_asm X fs rest (AList.update (drop 1 (path_suffix X f)) content acc))"

definition CompiledKernel_init ::
  "('m, 'w) externals \<Rightarrow> (string \<rightharpoonup> 'm artifact) \<Rightarrow> string \<Rightarrow> string
     \<Rightarrow> error + ('w, 'k, 'f) CompiledKernel" where
  "CompiledKernel_init X fs so_path metadata_path =
     (case external (load_launcher X so_path) of
        Inl e \<Rightarrow> Inl e
      | Inr launch \<Rightarrow>
          (case read_text X fs metadata_path of
             Inl e \<Rightarrow> Inl e
           | Inr text \<Rightarrow>
               (case external (json_loads X text) of
                  Inl e \<Rightarrow> Inl e
                | Inr md \<Rightarrow>
                    (let asm_files =
                           filter (\<lambda>f. path_suffix X f \<noteq> ''.json'')
                             (glob_siblings X fs metadata_path)
                     in case read_asm X fs asm_files [] of
                          Inl e \<Rightarrow> Inl e
                        | Inr a \<Rightarrow>
                            (case map_of a (binary_ext X) of
                               None \<Rightarrow> Inl (KeyError (binary_ext X))
                             | Some k \<Rightarrow>
                                 Inr \<lparr> c_wrapper = launch, metadata = md, asm = a,
                                       kernel = k, h_module = None, h_function = None,
                                       n_regs = None, n_spills = None \<rparr>)))))"

text \<open>
  The device driver (\<^verbatim>\<open>get_current_device\<close>, \<^verbatim>\<open>driver.utils\<close>) as the handle calls it, and
  the record of those calls. \<^verbatim>\<open>load_binary\<close> returns the module and function handles and
  the register and spill counts.
\<close>

record ('d, 'k, 'f) driver =
  get_current_device :: "string + 'd"
  get_device_properties :: "'d \<Rightarrow> string + (string \<times> int) list"
  load_binary :: "pyval \<Rightarrow> string \<Rightarrow> pyval \<Rightarrow> 'd \<Rightarrow> string + 'k \<times> 'f \<times> int \<times> int"

datatype 'd driver_call =
    GetCurrentDevice
  | GetDeviceProperties 'd
  | LoadBinary pyval string pyval 'd

text \<open>
  \<^verbatim>\<open>v > n\<close> for an attribute \<open>v\<close> and an integer \<open>n\<close>: defined on integers and booleans,
  a \<^verbatim>\<open>TypeError\<close> otherwise.
\<close>

fun py_gt_int :: "pyval \<Rightarrow> int \<Rightarrow> bool option" where
  "py_gt_int (VInt a) n = Some (a > n)"
| "py_gt_int (VBool b) n = Some ((if b then 1 else 0) > n)"
| "py_gt_int v n = None"

text \<open>
  \<^verbatim>\<open>_init_handles\<close> (lines 241 to 251). The result is the exception raised, if any, the
  handle as the call left it and the driver calls made so far.
\<close>

definition init_handles ::
  "('d, 'k, 'f) driver \<Rightarrow> ('w, 'k, 'f) CompiledKernel \<Rightarrow> 'd driver_call list
     \<Rightarrow> error option \<times> ('w, 'k, 'f) CompiledKernel \<times> 'd driver_call list" where
  "init_handles D self cs =
     (if h_module self \<noteq> None then (None, self, cs)
      else
        (case get_current_device D of
           Inl msg \<Rightarrow> (Some (External msg), self, cs @ [GetCurrentDevice])
         | Inr device \<Rightarrow>
             (let cs2 = cs @ [GetCurrentDevice, GetDeviceProperties device]
              in case get_device_properties D device of
                   Inl msg \<Rightarrow> (Some (External msg), self, cs2)
                 | Inr props \<Rightarrow>
                     (case map_of props ''max_shared_mem'' of
                        None \<Rightarrow> (Some (KeyError ''max_shared_mem''), self, cs2)
                      | Some max_shared \<Rightarrow>
                          (case map_of (metadata self) ''shared'' of
                             None \<Rightarrow> (Some (AttributeError ''shared''), self, cs2)
                           | Some shared \<Rightarrow>
                               (case py_gt_int shared max_shared of
                                  None \<Rightarrow> (Some (TypeError ''>''), self, cs2)
                                | Some True \<Rightarrow>
                                    (Some (OutOfResources shared max_shared ''shared memory''),
                                     self, cs2)
                                | Some False \<Rightarrow>
                                    (case map_of (metadata self) ''name'' of
                                       None \<Rightarrow> (Some (AttributeError ''name''), self, cs2)
                                     | Some name \<Rightarrow>
                                         (let cs3 = cs2 @ [LoadBinary name (kernel self) shared device]
                                          in case load_binary D name (kernel self) shared device of
                                               Inl msg \<Rightarrow> (Some (External msg), self, cs3)
                                             | Inr (m, f, r, s) \<Rightarrow>
                                                 (None,
                                                  self\<lparr>h_module := Some m, h_function := Some f,
                                                    n_regs := Some r, n_spills := Some s\<rparr>,
                                                  cs3)))))))))"

text \<open>
  The two accesses that bind first: reading the attribute \<^verbatim>\<open>c_wrapper\<close>
  (\<^verbatim>\<open>__getattribute__\<close>, lines 253 to 256) and indexing by a grid (\<^verbatim>\<open>__getitem__\<close>, lines
  258 to 269, which returns the launch closure for the grid).
\<close>

definition getattribute_c_wrapper ::
  "('d, 'k, 'f) driver \<Rightarrow> ('w, 'k, 'f) CompiledKernel \<Rightarrow> 'd driver_call list
     \<Rightarrow> (error + 'w) \<times> ('w, 'k, 'f) CompiledKernel \<times> 'd driver_call list" where
  "getattribute_c_wrapper D self cs =
     (case init_handles D self cs of
        (Some e, self', cs') \<Rightarrow> (Inl e, self', cs')
      | (None, self', cs') \<Rightarrow> (Inr (c_wrapper self'), self', cs'))"

definition getitem ::
  "('d, 'k, 'f) driver \<Rightarrow> ('w, 'k, 'f) CompiledKernel \<Rightarrow> int \<times> int \<times> int \<Rightarrow> 'd driver_call list
     \<Rightarrow> (error + int \<times> int \<times> int) \<times> ('w, 'k, 'f) CompiledKernel \<times> 'd driver_call list" where
  "getitem D self grid cs =
     (case init_handles D self cs of
        (Some e, self', cs') \<Rightarrow> (Inl e, self', cs')
      | (None, self', cs') \<Rightarrow> (Inr grid, self', cs'))"

text \<open>A sequence of binding calls, one driver state for each, stopping at no failure.\<close>

fun init_handles_seq ::
  "('d, 'k, 'f) driver list \<Rightarrow> ('w, 'k, 'f) CompiledKernel \<Rightarrow> 'd driver_call list
     \<Rightarrow> error option list \<times> ('w, 'k, 'f) CompiledKernel \<times> 'd driver_call list" where
  "init_handles_seq [] self cs = ([], self, cs)"
| "init_handles_seq (D # Ds) self cs =
     (case init_handles D self cs of
        (r, self', cs') \<Rightarrow>
          (case init_handles_seq Ds self' cs' of
             (rs, self'', cs'') \<Rightarrow> (r # rs, self'', cs'')))"

section \<open>\<^verbatim>\<open>compile\<close> (lines 156 to 206)\<close>

text \<open>The first argument of \<^verbatim>\<open>compile\<close>: a path (a \<^verbatim>\<open>str\<close>) or a jitted function.\<close>

datatype src_arg = SrcPath string | SrcFn JITFunction

text \<open>Line 164.\<close>

definition make_source ::
  "('m, 'w) externals \<Rightarrow> (string \<rightharpoonup> 'm artifact) \<Rightarrow> src_arg \<Rightarrow> signature_arg option
     \<Rightarrow> (pyval \<times> pyval) list option \<Rightarrow> InstanceDescriptor \<Rightarrow> error + source" where
  "make_source X fs src signature constants config =
     (case src of
        SrcPath p \<Rightarrow> (case IRSource_init X fs p of Inl e \<Rightarrow> Inl e | Inr s \<Rightarrow> Inr (Ir s))
      | SrcFn fn \<Rightarrow> Inr (Ast (ASTSource_init fn signature constants config)))"

text \<open>
  Line 170: the key string. \<^verbatim>\<open>sorted(get_env_vars().items())\<close> is \<open>sort\<close> on the pairs
  (Python compares tuples and strings lexicographically, strings by code point), and the
  \<^verbatim>\<open>frozenset\<close> is built from the sorted list.
\<close>

definition cache_key ::
  "('m, 'w) externals \<Rightarrow> source \<Rightarrow> 'm backend \<Rightarrow> dict \<Rightarrow> error + string" where
  "cache_key X src backend options =
     (case src_hash X src of
        Inl e \<Rightarrow> Inl e
      | Inr h \<Rightarrow>
          Inr (h @ ''-'' @ backend_hash backend @ ''-'' @ options_hash backend options @ ''-''
                 @ str_frozenset X (sort (get_env_vars X))))"

text \<open>Lines 183 to 190.\<close>

definition initial_metadata ::
  "('m, 'w) externals \<Rightarrow> pyval \<Rightarrow> dict \<Rightarrow> signature_arg option \<Rightarrow> InstanceDescriptor
     \<Rightarrow> error + dict" where
  "initial_metadata X device_type options signature config =
     (let md = dict_merge (dict_merge [(''device_type'', device_type)] options)
                 (map (\<lambda>(k, v). (k, VStr v)) (get_env_vars X))
      in case signature of
           None \<Rightarrow> Inr md
         | Some sg \<Rightarrow>
             (case ids_of_folded_args config of
                None \<Rightarrow> Inl (TypeError ''NoneType object is not iterable'')
              | Some ids \<Rightarrow> Inr (AList.update ''ids_of_folded_args'' (VTuple (map VInt ids)) md)))"

text \<open>\<^verbatim>\<open>list.index\<close>: the first position of an element, if it occurs.\<close>

fun index_of :: "'a list \<Rightarrow> 'a \<Rightarrow> nat option" where
  "index_of [] x = None"
| "index_of (y # ys) x = (if y = x then Some 0 else map_option Suc (index_of ys x))"

text \<open>
  The loop of lines 197 to 200 over the stages that remain. It threads the module, the
  metadata and the cache group; a stage that raises ends the run.
\<close>

fun run_stages ::
  "string \<Rightarrow> string \<Rightarrow> (string \<times> ('m \<Rightarrow> dict \<Rightarrow> string + 'm \<times> dict)) list \<Rightarrow> 'm \<Rightarrow> dict
     \<Rightarrow> (string \<times> string) list \<Rightarrow> 'm world
     \<Rightarrow> (error + 'm \<times> dict \<times> (string \<times> string) list) \<times> 'm world" where
  "run_stages run_hash name [] module md cache_group w = (Inr (module, md, cache_group), w)"
| "run_stages run_hash name ((ext, compile_ir) # rest) module md cache_group w =
     (let w1 = log_call (Invoke ext module md) w
      in case compile_ir module md of
           Inl msg \<Rightarrow> (Inl (External msg), w1)
         | Inr (next_module, md') \<Rightarrow>
             (case put run_hash (Module next_module) (name @ ''.'' @ ext) w1 of
                (p, w2) \<Rightarrow>
                  run_stages run_hash name rest next_module md'
                    (AList.update (name @ ''.'' @ ext) p cache_group) w2))"

text \<open>Lines 177 to 180: the cache hit.\<close>

definition compile_hit ::
  "('m, 'w) externals \<Rightarrow> 'm backend \<Rightarrow> source \<Rightarrow> string \<Rightarrow> 'm world
     \<Rightarrow> (error + ('w, 'k, 'f) CompiledKernel) \<times> 'm world" where
  "compile_hit X backend src metadata_path w =
     (case read_text X (files w) metadata_path of
        Inl e \<Rightarrow> (Inl e, w)
      | Inr text \<Rightarrow>
          (case external (json_loads X text) of
             Inl e \<Rightarrow> (Inl e, w)
           | Inr md \<Rightarrow>
               (let w1 = log_call (MakeLauncherStub src md) w
                in case external (make_launcher_stub backend src md) of
                     Inl e \<Rightarrow> (Inl e, w1)
                   | Inr so_path \<Rightarrow> (CompiledKernel_init X (files w1) so_path metadata_path, w1))))"

text \<open>Lines 182 to 206: the cache miss.\<close>

definition compile_miss ::
  "('m, 'w) externals \<Rightarrow> 'm backend \<Rightarrow> source \<Rightarrow> pyval \<Rightarrow> signature_arg option
     \<Rightarrow> InstanceDescriptor \<Rightarrow> pyval \<Rightarrow> dict \<Rightarrow> string \<Rightarrow> string \<Rightarrow> (string \<times> string) list
     \<Rightarrow> 'm world \<Rightarrow> (error + ('w, 'k, 'f) CompiledKernel) \<times> 'm world" where
  "compile_miss X backend src device_type signature config extern_libs options run_hash
       metadata_filename cache_group w =
     (case initial_metadata X device_type options signature config of
        Inl e \<Rightarrow> (Inl e, w)
      | Inr md \<Rightarrow>
          (case external (add_stages backend extern_libs options) of
             Inl e \<Rightarrow> (Inl e, w)
           | Inr stages \<Rightarrow>
               (case index_of (map fst stages) (src_ext src) of
                  None \<Rightarrow> (Inl (ValueError (src_ext src)), w)
                | Some first_stage \<Rightarrow>
                    (let w1 = log_call (MakeIR src options) w
                     in case make_ir X src options of
                          Inl e \<Rightarrow> (Inl e, w1)
                        | Inr module \<Rightarrow>
                            (case run_stages run_hash (src_name src) (drop first_stage stages)
                                    module md cache_group w1 of
                               (Inl e, w2) \<Rightarrow> (Inl e, w2)
                             | (Inr (last_module, md', cache_group'), w2) \<Rightarrow>
                                 (case external (json_dumps X md') of
                                    Inl e \<Rightarrow> (Inl e, w2)
                                  | Inr text \<Rightarrow>
                                      (case put run_hash (Text text) metadata_filename w2 of
                                         (p, w3) \<Rightarrow>
                                           (let cache_group'' =
                                                  AList.update metadata_filename p cache_group';
                                                w4 = put_group run_hash metadata_filename
                                                       cache_group'' w3;
                                                w5 = log_call (MakeLauncherStub src md') w4
                                            in case external (make_launcher_stub backend src md') of
                                                 Inl e \<Rightarrow> (Inl e, w5)
                                               | Inr so_path \<Rightarrow>
                                                   (case map_of cache_group'' metadata_filename of
                                                      None \<Rightarrow> (Inl (TypeError ''Path''), w5)
                                                    | Some metadata_path \<Rightarrow>
                                                        (CompiledKernel_init X (files w5) so_path
                                                           metadata_path, w5))))))))))"

text \<open>
  Lines 164 to 176, then one of the two paths. \<^verbatim>\<open>get_group(...) or {}\<close> is the empty
  dictionary on a miss.
\<close>

definition compile ::
  "('m, 'w) externals \<Rightarrow> src_arg \<Rightarrow> pyval \<Rightarrow> signature_arg option \<Rightarrow> InstanceDescriptor
     \<Rightarrow> (pyval \<times> pyval) list option \<Rightarrow> pyval \<Rightarrow> dict \<Rightarrow> 'm world
     \<Rightarrow> (error + ('w, 'k, 'f) CompiledKernel) \<times> 'm world" where
  "compile X src0 device_type signature config constants extern_libs kwargs w =
     (case make_source X (files w) src0 signature constants config of
        Inl e \<Rightarrow> (Inl e, w)
      | Inr src \<Rightarrow>
          (case external (CUDABackend X device_type) of
             Inl e \<Rightarrow> (Inl e, w)
           | Inr backend \<Rightarrow>
               (case external (parse_options backend kwargs) of
                  Inl e \<Rightarrow> (Inl e, w)
                | Inr options0 \<Rightarrow>
                    (case update_options src options0 of
                       Inl e \<Rightarrow> (Inl e, w)
                     | Inr options \<Rightarrow>
                         (case cache_key X src backend options of
                            Inl e \<Rightarrow> (Inl e, w)
                          | Inr key \<Rightarrow>
                              (let run_hash = md5_hexdigest X key;
                                   metadata_filename = src_name src @ ''.json''
                               in case get_group run_hash metadata_filename w of
                                    (probe, w1) \<Rightarrow>
                                      (let cache_group = (case probe of None \<Rightarrow> [] | Some g \<Rightarrow> g)
                                       in case map_of cache_group metadata_filename of
                                            Some metadata_path \<Rightarrow>
                                              compile_hit X backend src metadata_path w1
                                          | None \<Rightarrow>
                                              compile_miss X backend src device_type signature
                                                config extern_libs options run_hash
                                                metadata_filename cache_group w1)))))))"

section \<open>The lowering steps as the specification states them\<close>

text \<open>
  Section 4.4, step 3, of the specification: for each remaining stage in order, invoke
  \<^verbatim>\<open>lower(currentModule, metadata)\<close>, cache the resulting artifact under
  \<^verbatim>\<open>{sourceName}.{formatName}\<close>, and set \<^verbatim>\<open>currentModule\<close> to the result; a stage that
  raises ends the run. \<open>lowering run_hash name stages m md evs res\<close> holds when \<open>evs\<close> are
  the calls these steps make from the module \<open>m\<close> and the metadata \<open>md\<close>, and \<open>res\<close> is
  the message of the stage that raised or the last module and the metadata at the end.
\<close>

inductive lowering ::
  "string \<Rightarrow> string \<Rightarrow> (string \<times> ('m \<Rightarrow> dict \<Rightarrow> string + 'm \<times> dict)) list \<Rightarrow> 'm \<Rightarrow> dict
     \<Rightarrow> 'm event list \<Rightarrow> string + 'm \<times> dict \<Rightarrow> bool" where
  lowering_done: "lowering run_hash name [] m md [] (Inr (m, md))"
| lowering_step:
    "lower m md = Inr (m', md') \<Longrightarrow> lowering run_hash name rest m' md' evs res \<Longrightarrow>
     lowering run_hash name ((fmt, lower) # rest) m md
       (Invoke fmt m md # Put run_hash (name @ ''.'' @ fmt) (Module m') # evs) res"
| lowering_raise:
    "lower m md = Inl msg \<Longrightarrow>
     lowering run_hash name ((fmt, lower) # rest) m md [Invoke fmt m md] (Inl msg)"

text \<open>The calls and the result of the lowering steps, computed.\<close>

fun lowering_calls ::
  "string \<Rightarrow> string \<Rightarrow> (string \<times> ('m \<Rightarrow> dict \<Rightarrow> string + 'm \<times> dict)) list \<Rightarrow> 'm \<Rightarrow> dict
     \<Rightarrow> 'm event list \<times> (string + 'm \<times> dict)" where
  "lowering_calls run_hash name [] m md = ([], Inr (m, md))"
| "lowering_calls run_hash name ((fmt, lower) # rest) m md =
     (case lower m md of
        Inl msg \<Rightarrow> ([Invoke fmt m md], Inl msg)
      | Inr (m', md') \<Rightarrow>
          (case lowering_calls run_hash name rest m' md' of
             (evs, res) \<Rightarrow>
               (Invoke fmt m md # Put run_hash (name @ ''.'' @ fmt) (Module m') # evs, res)))"

text \<open>A stage function that leaves the entry of the metadata under a key as it found it.\<close>

definition stage_keeps ::
  "string \<Rightarrow> ('m \<Rightarrow> dict \<Rightarrow> string + 'm \<times> dict) \<Rightarrow> bool" where
  "stage_keeps k lower =
     (\<forall>m md m' md'. lower m md = Inr (m', md') \<longrightarrow> map_of md' k = map_of md k)"

section \<open>Sample inputs\<close>

text \<open>
  \<open>attr_text name v\<close> is the text of one attribute of a module header, for instance
  \<^verbatim>\<open>"triton_gpu.num-warps" = 8 : i32\<close>; the texts hold one \<^verbatim>\<open>num-warps\<close>
  attribute of 8, two of 4, one of 4 and one of 8 with one \<^verbatim>\<open>num-warp-groups-per-cta\<close> of 2,
  and one of 4 with two of those. \<open>sample_ir ext text\<close> is an \<^verbatim>\<open>IRSource\<close> of a file \<^verbatim>\<open>k.ext\<close> with the
  given text.
\<close>

definition quoted :: "string \<Rightarrow> string" where
  "quoted s = CHR 0x22 # s @ [CHR 0x22]"

definition attr_text :: "string \<Rightarrow> string \<Rightarrow> string" where
  "attr_text name v = quoted (''triton_gpu.'' @ name) @ '' = '' @ v @ '' : i32''"

definition ir_warps_8 :: string where
  "ir_warps_8 = attr_text ''num-warps'' ''8''"

definition ir_warps_4_4 :: string where
  "ir_warps_4_4 = attr_text ''num-warps'' ''4'' @ attr_text ''num-warps'' ''4''"

definition ir_warps_4_groups_2 :: string where
  "ir_warps_4_groups_2 =
     attr_text ''num-warps'' ''4'' @ '', '' @ attr_text ''num-warp-groups-per-cta'' ''2''"

definition ir_warps_8_groups_2 :: string where
  "ir_warps_8_groups_2 =
     attr_text ''num-warps'' ''8'' @ '', '' @ attr_text ''num-warp-groups-per-cta'' ''2''"

definition ir_warps_4_groups_2_2 :: string where
  "ir_warps_4_groups_2_2 =
     attr_text ''num-warps'' ''4'' @ attr_text ''num-warp-groups-per-cta'' ''2''
       @ attr_text ''num-warp-groups-per-cta'' ''2''"

definition sample_ir :: "string \<Rightarrow> string \<Rightarrow> IRSource" where
  "sample_ir ext text =
     \<lparr> ir_path = ''k.'' @ ext, ir_ext = ext, ir_src = text, ir_name = ''k'',
       ir_signature = [] \<rparr>"

definition sample_fn :: JITFunction where
  "sample_fn = \<lparr> fn_cache_key = ''c0ffee'', fn_name = ''add_kernel'' \<rparr>"

definition sample_ast :: ASTSource where
  "sample_ast = ASTSource_init sample_fn (Some (SigStr ''*fp32, i32'')) None
     \<lparr> divisible_by_16 = Some [0], equal_to_1 = Some [], ids_of_folded_args = Some [],
       divisible_by_8 = Some [] \<rparr>"

text \<open>
  A kernel handle that declares \<open>shared\<close> bytes of shared memory, and a device that
  reports \<open>max_shared\<close> bytes and loads every binary.
\<close>

definition sample_kernel :: "int \<Rightarrow> (nat, nat, nat) CompiledKernel" where
  "sample_kernel shared =
     \<lparr> c_wrapper = 0,
       metadata = [(''name'', VStr ''add_kernel''), (''shared'', VInt shared),
                   (''num_warps'', VInt 4)],
       asm = [(''cubin'', ''ELF'')],
       kernel = ''ELF'',
       h_module = None, h_function = None, n_regs = None, n_spills = None \<rparr>"

definition sample_driver :: "int \<Rightarrow> (nat, nat, nat) driver" where
  "sample_driver max_shared =
     \<lparr> get_current_device = Inr 0,
       get_device_properties = (\<lambda>d. Inr [(''max_shared_mem'', max_shared)]),
       load_binary = (\<lambda>name k shared d. Inr (1, 2, 32, 0)) \<rparr>"

text \<open>A rendering of a metadata dictionary as text, for the sample \<^verbatim>\<open>json.dumps\<close>.\<close>

function show_nat :: "nat \<Rightarrow> string" where
  "show_nat n =
     (if n < 10 then [char_of (48 + n)] else show_nat (n div 10) @ [char_of (48 + n mod 10)])"
  by pat_completeness auto
termination
  by (relation "measure id") auto

fun show_pyval :: "pyval \<Rightarrow> string" where
  "show_pyval VNone = ''null''"
| "show_pyval (VBool b) = (if b then ''true'' else ''false'')"
| "show_pyval (VInt i) = (if i < 0 then ''-'' @ show_nat (nat (- i)) else show_nat (nat i))"
| "show_pyval (VStr s) = s"
| "show_pyval (VTuple vs) = ''['' @ concat (map (\<lambda>v. show_pyval v @ '','') vs) @ '']''"
| "show_pyval (VList vs) = ''['' @ concat (map (\<lambda>v. show_pyval v @ '','') vs) @ '']''"

definition show_dict :: "dict \<Rightarrow> string" where
  "show_dict d = ''{'' @ concat (map (\<lambda>(k, v). k @ '':'' @ show_pyval v @ '','') d) @ ''}''"

text \<open>
  A backend with the stage chain \<^verbatim>\<open>ttir\<close>, \<^verbatim>\<open>ttgir\<close>, \<^verbatim>\<open>ptx\<close>, \<^verbatim>\<open>cubin\<close> over modules that are
  strings; the stage named \<open>broken\<close>, if any, raises. The other collaborators are as
  small as they can be.
\<close>

definition sample_stage :: "string \<Rightarrow> string \<Rightarrow> dict \<Rightarrow> string + string \<times> dict" where
  "sample_stage fmt m md =
     Inr (fmt @ ''<'' @ m @ ''>'', AList.update ''last_stage'' (VStr fmt) md)"

definition sample_stages ::
  "string \<Rightarrow> (string \<times> (string \<Rightarrow> dict \<Rightarrow> string + string \<times> dict)) list" where
  "sample_stages broken =
     map (\<lambda>fmt. (fmt, if fmt = broken then (\<lambda>m md. Inl ''failed'') else sample_stage fmt))
       [''ttir'', ''ttgir'', ''ptx'', ''cubin'']"

definition sample_backend :: "string \<Rightarrow> string backend" where
  "sample_backend broken =
     \<lparr> backend_hash = ''cuda-80'',
       parse_options =
         (\<lambda>kwargs. Inr (dict_merge [(''num_warps'', VInt 4), (''num_ctas'', VInt 1)] kwargs)),
       options_hash = (\<lambda>options. concat (map fst options)),
       add_stages = (\<lambda>libs options. Inr (sample_stages broken)),
       make_launcher_stub = (\<lambda>src md. Inr ''launcher.so'') \<rparr>"

definition sample_externals :: "string \<Rightarrow> (string, nat) externals" where
  "sample_externals broken =
     \<lparr> md5_hexdigest = (\<lambda>s. ''md5'' @ take 2 s),
       get_env_vars = [(''TRITON_DEBUG'', ''0'')],
       str_frozenset = (\<lambda>kvs. concat (map (\<lambda>(k, v). k @ ''='' @ v) kvs)),
       str_int_lists = (\<lambda>xss. replicate (length (concat xss)) CHR ''i''),
       str_dict_values = concat,
       str_dict = (\<lambda>d. replicate (length d) CHR ''c''),
       path_suffix = dropWhile (\<lambda>c. c \<noteq> CHR ''.''),
       prototype_search = (\<lambda>ext text. Some (''k'', [])),
       arg_type_findall = (\<lambda>ext sg. []),
       module_text = (\<lambda>m. m),
       ast_to_ttir = (\<lambda>fn sd options. Inr (fn_name fn)),
       parse_mlir_module = (\<lambda>p. Inr p),
       json_dumps = (\<lambda>md. Inr (show_dict md)),
       json_loads = (\<lambda>text. Inr [(''name'', VStr ''k''), (''shared'', VInt 0)]),
       CUDABackend = (\<lambda>device_type. Inr (sample_backend broken)),
       glob_siblings =
         (\<lambda>fs p. filter (\<lambda>q. fs q \<noteq> None) [take (length p - 4) p @ ''cubin'']),
       load_launcher = (\<lambda>p. Inr 0),
       binary_ext = ''cubin'' \<rparr>"

text \<open>
  The text of \<^verbatim>\<open>str(frozenset(items))\<close>. A set has no order of its own: the text lists
  the items in the order the set iterates, and that order follows the hashes of the
  items, which for strings are seeded anew in every interpreter process (unless
  \<^verbatim>\<open>PYTHONHASHSEED\<close> fixes the seed). \<open>frozenset_text\<close> renders the items in a given
  iteration order; \<open>repr_str\<close> is \<^verbatim>\<open>repr\<close> of a string of printable ASCII characters
  with no quote and no backslash.
\<close>

definition repr_str :: "string \<Rightarrow> string" where
  "repr_str s = [CHR 0x27] @ s @ [CHR 0x27]"

definition repr_item :: "string \<times> string \<Rightarrow> string" where
  "repr_item kv = ''('' @ repr_str (fst kv) @ '', '' @ repr_str (snd kv) @ '')''"

fun join_with :: "string \<Rightarrow> string list \<Rightarrow> string" where
  "join_with sep [] = []"
| "join_with sep [x] = x"
| "join_with sep (x # y # xs) = x @ sep @ join_with sep (y # xs)"

definition frozenset_text :: "(string \<times> string) list \<Rightarrow> string" where
  "frozenset_text items =
     (if items = [] then ''frozenset()''
      else ''frozenset({'' @ join_with '', '' (map repr_item items) @ ''})'')"

text \<open>
  An interpreter process whose environment has two variables and whose sets iterate the
  items they are built from in the order \<open>iteration\<close> gives. CPython 3.11 started with the
  hash seed 3 iterates the set of these two items in their sorted order, and started
  with the hash seed 1 in the reverse of it.
\<close>

definition sample_process ::
  "((string \<times> string) list \<Rightarrow> (string \<times> string) list) \<Rightarrow> (string, nat) externals" where
  "sample_process iteration =
     (sample_externals [])
       \<lparr> get_env_vars := [(''TRITON_DEBUG'', ''0''), (''MLIR_ENABLE_DUMP'', ''1'')],
         str_frozenset := (\<lambda>items. frozenset_text (iteration items)) \<rparr>"

text \<open>
  A world whose only file is \<^verbatim>\<open>k.ext\<close> with the given text; a world that also holds a
  committed group for the key of \<^verbatim>\<open>k.ttgir\<close>; the metadata a run starts from; and \<^verbatim>\<open>compile\<close>
  called on the path \<^verbatim>\<open>k.ext\<close> with the default arguments.
\<close>

definition sample_world :: "string \<Rightarrow> string \<Rightarrow> string world" where
  "sample_world ext text =
     \<lparr> files = [''k.'' @ ext \<mapsto> Text text], groups = Map.empty, calls = [] \<rparr>"

definition default_config :: InstanceDescriptor where
  "default_config =
     \<lparr> divisible_by_16 = None, equal_to_1 = None, ids_of_folded_args = None,
       divisible_by_8 = None \<rparr>"

definition sample_hit_world :: "string world" where
  "sample_hit_world =
     \<lparr> files = [''k.ttgir'' \<mapsto> Text ir_warps_8, ''md5md/k.json'' \<mapsto> Text ''{}'',
                ''md5md/k.cubin'' \<mapsto> Module ''ELF''],
       groups = [(''md5md'', ''k.json'') \<mapsto>
                   [(''k.cubin'', ''md5md/k.cubin''), (''k.json'', ''md5md/k.json'')]],
       calls = [] \<rparr>"

definition sample_md0 :: "int \<Rightarrow> dict" where
  "sample_md0 warps =
     [(''device_type'', VTuple [VStr ''cuda'', VInt 80]), (''num_warps'', VInt warps),
      (''num_ctas'', VInt 1), (''TRITON_DEBUG'', VStr ''0'')]"

definition sample_compile ::
  "string \<Rightarrow> string \<Rightarrow> string world
     \<Rightarrow> (error + (nat, nat, nat) CompiledKernel) \<times> string world" where
  "sample_compile broken ext w =
     compile (sample_externals broken) (SrcPath (''k.'' @ ext)) (VTuple [VStr ''cuda'', VInt 80])
       None default_config None VNone [] w"

section \<open>Refining the options\<close>

lemma sample_text_8: "get_num_warps_from_ir_str ir_warps_8 = Inr 8"
  by code_simp

lemma update_options_other_keys:
  "update_options src options = Inr options' \<Longrightarrow> k \<noteq> ''num_warps''
     \<Longrightarrow> map_of options' k = map_of options k"
  by (cases src) (auto simp: update_conv' split: if_splits sum.splits)

text \<open>
  Claim C10. \<^verbatim>\<open>update_options\<close> returns the options as it got them for every
  \<^verbatim>\<open>ASTSource\<close> and for every \<^verbatim>\<open>IRSource\<close> whose extension is not \<^verbatim>\<open>ttgir\<close>. Whenever the
  options come back changed, the source is an \<^verbatim>\<open>IRSource\<close> with the extension \<^verbatim>\<open>ttgir\<close> and
  the change is the assignment of \<^verbatim>\<open>num_warps\<close>; no other attribute of the options is
  ever changed.
\<close>

theorem update_options_frame:
  "update_options (Ast a) options = Inr options \<and>
   (ir_ext s \<noteq> ''ttgir'' \<longrightarrow> update_options (Ir s) options = Inr options) \<and>
   (update_options src options = Inr options' \<and> options' \<noteq> options \<longrightarrow>
      (\<exists>s' n. src = Ir s' \<and> ir_ext s' = ''ttgir''
         \<and> get_num_warps_from_ir_str (ir_src s') = Inr n
         \<and> options' = AList.update ''num_warps'' (VInt n) options)) \<and>
   (update_options src options = Inr options' \<and> k \<noteq> ''num_warps'' \<longrightarrow>
      map_of options' k = map_of options k)"
proof (intro conjI impI)
  show "update_options (Ast a) options = Inr options" by simp
next
  assume "ir_ext s \<noteq> ''ttgir''"
  then show "update_options (Ir s) options = Inr options" by simp
next
  assume h: "update_options src options = Inr options' \<and> options' \<noteq> options"
  show "\<exists>s' n. src = Ir s' \<and> ir_ext s' = ''ttgir''
         \<and> get_num_warps_from_ir_str (ir_src s') = Inr n
         \<and> options' = AList.update ''num_warps'' (VInt n) options"
  proof (cases src)
    case (Ast a')
    with h show ?thesis by auto
  next
    case (Ir s')
    show ?thesis
    proof (cases "ir_ext s' = ''ttgir''")
      case False
      with h Ir show ?thesis by auto
    next
      case True
      show ?thesis
      proof (cases "get_num_warps_from_ir_str (ir_src s')")
        case (Inl e)
        with h Ir True show ?thesis by simp
      next
        case (Inr n)
        with h Ir True show ?thesis by auto
      qed
    qed
  qed
next
  assume "update_options src options = Inr options' \<and> k \<noteq> ''num_warps''"
  then show "map_of options' k = map_of options k"
    using update_options_other_keys by blast
qed

theorem update_options_frame_witness:
  "update_options (Ast sample_ast) [(''num_warps'', VInt 4), (''num_ctas'', VInt 1)]
     = Inr [(''num_warps'', VInt 4), (''num_ctas'', VInt 1)]
   \<and> update_options (Ir (sample_ir ''ttir'' ir_warps_8))
         [(''num_warps'', VInt 4), (''num_ctas'', VInt 1)]
     = Inr [(''num_warps'', VInt 4), (''num_ctas'', VInt 1)]
   \<and> update_options (Ir (sample_ir ''ttgir'' ir_warps_8))
         [(''num_warps'', VInt 4), (''num_ctas'', VInt 1)]
     = Inr [(''num_warps'', VInt 8), (''num_ctas'', VInt 1)]
   \<and> (\<exists>s' n. Ir (sample_ir ''ttgir'' ir_warps_8) = Ir s'
         \<and> ir_ext s' = ''ttgir''
         \<and> get_num_warps_from_ir_str (ir_src s') = Inr n
         \<and> [(''num_warps'', VInt 8), (''num_ctas'', VInt 1)]
             = AList.update ''num_warps'' (VInt n)
                 [(''num_warps'', VInt 4), (''num_ctas'', VInt 1)])
   \<and> map_of [(''num_warps'', VInt 8), (''num_ctas'', VInt 1)] ''num_ctas''
     = map_of [(''num_warps'', VInt 4), (''num_ctas'', VInt 1)] ''num_ctas''"
proof -
  have e: "update_options (Ir (sample_ir ''ttgir'' ir_warps_8))
         [(''num_warps'', VInt 4), (''num_ctas'', VInt 1)]
     = Inr [(''num_warps'', VInt 8), (''num_ctas'', VInt 1)]"
    by (simp add: sample_ir_def sample_text_8)
  have n: "ir_ext (sample_ir ''ttir'' ir_warps_8) \<noteq> ''ttgir''"
    by (simp add: sample_ir_def)
  have ne: "[(''num_warps'', VInt 8), (''num_ctas'', VInt 1)]
      \<noteq> [(''num_warps'', VInt 4), (''num_ctas'', VInt 1)]"
    by simp
  have kk: "''num_ctas'' \<noteq> ''num_warps''"
    by simp
  note T = update_options_frame [of sample_ast
        "[(''num_warps'', VInt 4), (''num_ctas'', VInt 1)]"
        "sample_ir ''ttir'' ir_warps_8"
        "Ir (sample_ir ''ttgir'' ir_warps_8)"
        "[(''num_warps'', VInt 8), (''num_ctas'', VInt 1)]" "''num_ctas''"]
  have a: "update_options (Ast sample_ast) [(''num_warps'', VInt 4), (''num_ctas'', VInt 1)]
     = Inr [(''num_warps'', VInt 4), (''num_ctas'', VInt 1)]"
    using T by blast
  have b: "update_options (Ir (sample_ir ''ttir'' ir_warps_8))
         [(''num_warps'', VInt 4), (''num_ctas'', VInt 1)]
     = Inr [(''num_warps'', VInt 4), (''num_ctas'', VInt 1)]"
    using T n by blast
  have c: "\<exists>s' n. Ir (sample_ir ''ttgir'' ir_warps_8) = Ir s'
         \<and> ir_ext s' = ''ttgir''
         \<and> get_num_warps_from_ir_str (ir_src s') = Inr n
         \<and> [(''num_warps'', VInt 8), (''num_ctas'', VInt 1)]
             = AList.update ''num_warps'' (VInt n)
                 [(''num_warps'', VInt 4), (''num_ctas'', VInt 1)]"
    using T e ne by blast
  have d: "map_of [(''num_warps'', VInt 8), (''num_ctas'', VInt 1)] ''num_ctas''
     = map_of [(''num_warps'', VInt 4), (''num_ctas'', VInt 1)] ''num_ctas''"
    using T e kk by blast
  show ?thesis
    using a b e c d by blast
qed

text \<open>
  Claim C5, as the code has it. For an \<^verbatim>\<open>IRSource\<close> whose extension is \<^verbatim>\<open>ttgir\<close>,
  \<^verbatim>\<open>update_options\<close> raises \<^verbatim>\<open>AssertionError\<close> (the specification's MalformedIRError) when
  the \<^verbatim>\<open>num-warps\<close> attribute is found zero times or more than once. When it is found
  exactly once, the call also raises if the \<^verbatim>\<open>num-warp-groups-per-cta\<close> attribute is found
  more than once; otherwise it succeeds and sets \<^verbatim>\<open>num_warps\<close> to the value found,
  multiplied by the number of warp groups when that attribute is found once. For any
  other extension the call succeeds without reading the text.
\<close>

theorem update_options_ttgir_attribute:
  "(ir_ext s \<noteq> ''ttgir'' \<longrightarrow> update_options (Ir s) options = Inr options) \<and>
   (ir_ext s = ''ttgir'' \<and> length (findall_attr ''num-warps'' (ir_src s)) \<noteq> 1 \<longrightarrow>
      update_options (Ir s) options
        = Inl (AssertionError ''Expected exactly one match for num_warps'')) \<and>
   (ir_ext s = ''ttgir'' \<and> findall_attr ''num-warps'' (ir_src s) = [n]
      \<and> findall_attr ''num-warp-groups-per-cta'' (ir_src s) = [] \<longrightarrow>
      update_options (Ir s) options
        = Inr (AList.update ''num_warps'' (VInt (int_of_digits n)) options)) \<and>
   (ir_ext s = ''ttgir'' \<and> findall_attr ''num-warps'' (ir_src s) = [n]
      \<and> findall_attr ''num-warp-groups-per-cta'' (ir_src s) = [g] \<longrightarrow>
      update_options (Ir s) options
        = Inr (AList.update ''num_warps'' (VInt (int_of_digits n * int_of_digits g)) options)) \<and>
   (ir_ext s = ''ttgir'' \<and> findall_attr ''num-warps'' (ir_src s) = [n]
      \<and> length (findall_attr ''num-warp-groups-per-cta'' (ir_src s)) > 1 \<longrightarrow>
      update_options (Ir s) options
        = Inl (AssertionError
            ''Expected triton_gpu.num-warp-groups-per-cta attribute to appear 0 or 1 times''))"
  by (auto simp add: get_num_warps_from_ir_str_def Let_def)

lemma sample_findall_warps_4:
  "findall_attr ''num-warps''
     ir_warps_4_groups_2
   = [''4'']"
  by code_simp

lemma sample_findall_groups_2:
  "findall_attr ''num-warp-groups-per-cta''
     ir_warps_4_groups_2
   = [''2'']"
  by code_simp

lemma sample_findall_warps_twice:
  "findall_attr ''num-warps'' ir_warps_4_4
   = [''4'', ''4'']"
  by code_simp

lemma sample_findall_groups_twice:
  "findall_attr ''num-warp-groups-per-cta''
     ir_warps_4_groups_2_2
   = [''2'', ''2'']"
  by code_simp

lemma sample_findall_warps_once:
  "findall_attr ''num-warps''
     ir_warps_4_groups_2_2
   = [''4'']"
  by code_simp

lemma sample_findall_warps_8: "findall_attr ''num-warps'' ir_warps_8 = [''8'']"
  by code_simp

lemma sample_findall_groups_none:
  "findall_attr ''num-warp-groups-per-cta'' ir_warps_8 = []"
  by code_simp

lemma int_of_digits_samples:
  "int_of_digits ''8'' = 8" "int_of_digits ''4'' = 4" "int_of_digits ''2'' = 2"
  by (simp_all add: int_of_digits_def)

text \<open>
  The claim as the specification states it fails in three ways: a \<^verbatim>\<open>ttir\<close> source without
  the attribute is refined without an error; a \<^verbatim>\<open>ttgir\<close> source with the attribute exactly
  once is refused when the warp-group attribute appears twice; and with the warp-group
  attribute once, the value stored is the product (here 4 times 2), not the value found.
\<close>

theorem update_options_counterexample:
  "findall_attr ''num-warps'' [] = []
   \<and> update_options (Ir (sample_ir ''ttir'' [])) [] = Inr []
   \<and> findall_attr ''num-warps''
        ir_warps_4_groups_2_2 = [''4'']
   \<and> update_options
        (Ir (sample_ir ''ttgir''
          ir_warps_4_groups_2_2)) []
      = Inl (AssertionError
          ''Expected triton_gpu.num-warp-groups-per-cta attribute to appear 0 or 1 times'')
   \<and> findall_attr ''num-warps''
        ir_warps_4_groups_2
      = [''4'']
   \<and> update_options
        (Ir (sample_ir ''ttgir''
          ir_warps_4_groups_2))
        []
      = Inr [(''num_warps'', VInt 8)]"
proof -
  have a: "findall_attr ''num-warps'' [] = []"
    by simp
  have b: "update_options (Ir (sample_ir ''ttir'' [])) [] = Inr []"
    by (simp add: sample_ir_def)
  have c: "update_options
        (Ir (sample_ir ''ttgir''
          ir_warps_4_groups_2_2)) []
      = Inl (AssertionError
          ''Expected triton_gpu.num-warp-groups-per-cta attribute to appear 0 or 1 times'')"
    by (simp add: sample_ir_def get_num_warps_from_ir_str_def sample_findall_warps_once
        sample_findall_groups_twice)
  have d: "update_options
        (Ir (sample_ir ''ttgir''
          ir_warps_4_groups_2))
        []
      = Inr [(''num_warps'', VInt 8)]"
    by (simp add: sample_ir_def get_num_warps_from_ir_str_def sample_findall_warps_4
        sample_findall_groups_2 int_of_digits_samples)
  from a b c d sample_findall_warps_once sample_findall_warps_4 show ?thesis
    by blast
qed

theorem update_options_ttgir_attribute_witness:
  "update_options (Ir (sample_ir ''ttir'' ir_warps_8)) [(''num_warps'', VInt 4)]
     = Inr [(''num_warps'', VInt 4)]
   \<and> update_options (Ir (sample_ir ''ttgir'' [])) [(''num_warps'', VInt 4)]
     = Inl (AssertionError ''Expected exactly one match for num_warps'')
   \<and> update_options
        (Ir (sample_ir ''ttgir'' ir_warps_4_4))
        [(''num_warps'', VInt 4)]
     = Inl (AssertionError ''Expected exactly one match for num_warps'')
   \<and> update_options (Ir (sample_ir ''ttgir'' ir_warps_8))
        [(''num_warps'', VInt 4)]
     = Inr [(''num_warps'', VInt 8)]
   \<and> update_options
        (Ir (sample_ir ''ttgir''
          ir_warps_4_groups_2))
        [(''num_warps'', VInt 4)]
     = Inr [(''num_warps'', VInt 8)]
   \<and> update_options
        (Ir (sample_ir ''ttgir''
          ir_warps_4_groups_2_2))
        [(''num_warps'', VInt 4)]
     = Inl (AssertionError
         ''Expected triton_gpu.num-warp-groups-per-cta attribute to appear 0 or 1 times'')"
proof -
  have a: "update_options (Ir (sample_ir ''ttir'' ir_warps_8))
        [(''num_warps'', VInt 4)] = Inr [(''num_warps'', VInt 4)]"
    using update_options_ttgir_attribute
      [where s = "sample_ir ''ttir'' ir_warps_8"
        and options = "[(''num_warps'', VInt 4)]"]
    by (simp add: sample_ir_def)
  have b: "update_options (Ir (sample_ir ''ttgir'' [])) [(''num_warps'', VInt 4)]
     = Inl (AssertionError ''Expected exactly one match for num_warps'')"
    using update_options_ttgir_attribute
      [where s = "sample_ir ''ttgir'' []" and options = "[(''num_warps'', VInt 4)]"]
    by (simp add: sample_ir_def)
  have c: "update_options
        (Ir (sample_ir ''ttgir'' ir_warps_4_4))
        [(''num_warps'', VInt 4)]
     = Inl (AssertionError ''Expected exactly one match for num_warps'')"
    using update_options_ttgir_attribute
      [where s = "sample_ir ''ttgir''
          ir_warps_4_4"
        and options = "[(''num_warps'', VInt 4)]"]
    by (simp add: sample_ir_def sample_findall_warps_twice)
  have d: "update_options (Ir (sample_ir ''ttgir'' ir_warps_8))
        [(''num_warps'', VInt 4)]
     = Inr [(''num_warps'', VInt 8)]"
    using update_options_ttgir_attribute
      [where s = "sample_ir ''ttgir'' ir_warps_8"
        and options = "[(''num_warps'', VInt 4)]" and n = "''8''"]
    by (simp add: sample_ir_def sample_findall_warps_8 sample_findall_groups_none
        int_of_digits_samples)
  have e: "update_options
        (Ir (sample_ir ''ttgir''
          ir_warps_4_groups_2))
        [(''num_warps'', VInt 4)]
     = Inr [(''num_warps'', VInt 8)]"
    using update_options_ttgir_attribute
      [where s = "sample_ir ''ttgir''
          ir_warps_4_groups_2"
        and options = "[(''num_warps'', VInt 4)]" and n = "''4''" and g = "''2''"]
    by (simp add: sample_ir_def sample_findall_warps_4 sample_findall_groups_2
        int_of_digits_samples)
  have f: "update_options
        (Ir (sample_ir ''ttgir''
          ir_warps_4_groups_2_2))
        [(''num_warps'', VInt 4)]
     = Inl (AssertionError
         ''Expected triton_gpu.num-warp-groups-per-cta attribute to appear 0 or 1 times'')"
    using update_options_ttgir_attribute
      [where s = "sample_ir ''ttgir''
          ir_warps_4_groups_2_2"
        and options = "[(''num_warps'', VInt 4)]" and n = "''4''"]
    by (simp add: sample_ir_def sample_findall_warps_once sample_findall_groups_twice)
  from a b c d e f show ?thesis
    by blast
qed

section \<open>The cache key\<close>

lemma src_hash_env: "src_hash (X\<lparr>get_env_vars := e\<rparr>) src = src_hash X src"
  by (cases src)
    (auto simp add: InstanceDescriptor_hash_def split: sum.splits option.splits prod.splits)

lemma sort_dict_items:
  assumes "distinct (map fst e1)" "distinct (map fst e2)" "set e1 = set e2"
  shows "sort e1 = sort e2"
proof -
  have "distinct e1" "distinct e2"
    using assms(1,2) by (simp_all add: distinct_map)
  show ?thesis
  proof (rule sorted_distinct_set_unique)
    show "sorted (sort e1)" "sorted (sort e2)" by simp_all
    show "distinct (sort e1)" using \<open>distinct e1\<close> by simp
    show "distinct (sort e2)" using \<open>distinct e2\<close> by simp
    show "set (sort e1) = set (sort e2)" using assms(3) by simp
  qed
qed

text \<open>
  Within one interpreter process (one \<open>X\<close>, so one rendering \<open>str_frozenset\<close>), two
  environment dictionaries (their keys are distinct) with the same key/value pairs,
  enumerated in any order, give the same key string: the pairs are sorted before the
  \<^verbatim>\<open>frozenset\<close> is built from them.
\<close>

theorem cache_key_env_order:
  assumes "distinct (map fst env1)" and "distinct (map fst env2)" and "set env1 = set env2"
  shows "cache_key (X\<lparr>get_env_vars := env1\<rparr>) src backend options
       = cache_key (X\<lparr>get_env_vars := env2\<rparr>) src backend options"
  using sort_dict_items [OF assms]
  by (simp add: cache_key_def src_hash_env split: sum.splits)

theorem cache_key_env_order_witness:
  "cache_key ((sample_externals [])\<lparr>get_env_vars :=
        [(''TRITON_DEBUG'', ''0''), (''MLIR_ENABLE_DUMP'', ''1'')]\<rparr>)
     (Ir (sample_ir ''ttgir'' [])) (sample_backend []) [(''num_warps'', VInt 4)]
   = cache_key ((sample_externals [])\<lparr>get_env_vars :=
        [(''MLIR_ENABLE_DUMP'', ''1''), (''TRITON_DEBUG'', ''0'')]\<rparr>)
     (Ir (sample_ir ''ttgir'' [])) (sample_backend []) [(''num_warps'', VInt 4)]"
proof -
  have d1: "distinct (map fst [(''TRITON_DEBUG'', ''0''), (''MLIR_ENABLE_DUMP'', ''1'')])"
    by simp
  have d2: "distinct (map fst [(''MLIR_ENABLE_DUMP'', ''1''), (''TRITON_DEBUG'', ''0'')])"
    by simp
  have e: "set [(''TRITON_DEBUG'', ''0''), (''MLIR_ENABLE_DUMP'', ''1'')]
      = set [(''MLIR_ENABLE_DUMP'', ''1''), (''TRITON_DEBUG'', ''0'')]"
    by auto
  show ?thesis
    by (rule cache_key_env_order [OF d1 d2 e])
qed

text \<open>
  Between two processes the key string of one request follows the rendering of the
  \<^verbatim>\<open>frozenset\<close>: the keys agree exactly when the two renderings of the sorted items agree.
\<close>

lemma src_hash_str_frozenset: "src_hash (X\<lparr>str_frozenset := f\<rparr>) src = src_hash X src"
  by (cases src)
    (simp_all add: InstanceDescriptor_hash_def split: sum.splits option.splits prod.splits)

lemma cache_key_rendering:
  assumes "src_hash X src = Inr h"
  shows "cache_key (X\<lparr>str_frozenset := f\<rparr>) src backend options
           = cache_key (X\<lparr>str_frozenset := g\<rparr>) src backend options
     \<longleftrightarrow> f (sort (get_env_vars X)) = g (sort (get_env_vars X))"
  using assms by (simp add: cache_key_def src_hash_str_frozenset)

lemma sample_sorted_env:
  "sort [(''TRITON_DEBUG'', ''0''), (''MLIR_ENABLE_DUMP'', ''1'')]
     = [(''MLIR_ENABLE_DUMP'', ''1''), (''TRITON_DEBUG'', ''0'')]"
  by code_simp

text \<open>
  Claim C1 does not hold of the code between two interpreter processes. One request (the
  same source, backend, options and environment) gets two different key strings in two
  processes whose sets iterate in different orders: \<^verbatim>\<open>sorted\<close> of line 170 puts the items
  in order, and the \<^verbatim>\<open>frozenset\<close> around it gives that order up before the text is made.
\<close>

theorem cache_key_differs_between_processes:
  "cache_key (sample_process id) (Ir (sample_ir ''ttgir'' ''module {}'')) (sample_backend [])
       [(''num_warps'', VInt 4), (''num_ctas'', VInt 1)]
     = Inr (''md5mo-cuda-80-num_warpsnum_ctas-''
            @ ''frozenset({('MLIR_ENABLE_DUMP', '1'), ('TRITON_DEBUG', '0')})'')
   \<and> cache_key (sample_process rev) (Ir (sample_ir ''ttgir'' ''module {}'')) (sample_backend [])
       [(''num_warps'', VInt 4), (''num_ctas'', VInt 1)]
     = Inr (''md5mo-cuda-80-num_warpsnum_ctas-''
            @ ''frozenset({('TRITON_DEBUG', '0'), ('MLIR_ENABLE_DUMP', '1')})'')
   \<and> cache_key (sample_process id) (Ir (sample_ir ''ttgir'' ''module {}'')) (sample_backend [])
       [(''num_warps'', VInt 4), (''num_ctas'', VInt 1)]
     \<noteq> cache_key (sample_process rev) (Ir (sample_ir ''ttgir'' ''module {}''))
         (sample_backend []) [(''num_warps'', VInt 4), (''num_ctas'', VInt 1)]"
  by (simp add: cache_key_def sample_process_def sample_externals_def sample_backend_def
      sample_ir_def sample_sorted_env frozenset_text_def repr_item_def repr_str_def)

section \<open>Binding the handle\<close>

lemma init_handles_bound:
  "h_module self \<noteq> None \<Longrightarrow> init_handles D self cs = (None, self, cs)"
  by (simp add: init_handles_def)

lemma init_handles_success_bound:
  "init_handles D self cs = (None, self', cs') \<Longrightarrow> h_module self' \<noteq> None"
  by (auto simp: init_handles_def Let_def
      split: if_splits sum.splits option.splits bool.splits prod.splits)

lemma init_handles_seq_bound:
  "h_module self \<noteq> None \<Longrightarrow>
     init_handles_seq Ds self cs = (replicate (length Ds) None, self, cs)"
  by (induction Ds) (simp_all add: init_handles_bound)

lemma sample_bind_fails:
  "init_handles (sample_driver 49152) (sample_kernel 70000) []
     = (Some (OutOfResources (VInt 70000) 49152 ''shared memory''), sample_kernel 70000,
        [GetCurrentDevice, GetDeviceProperties 0])"
  by (simp add: init_handles_def sample_kernel_def sample_driver_def)

lemma sample_bind_succeeds:
  "init_handles (sample_driver 49152) (sample_kernel 40000) []
     = (None,
        (sample_kernel 40000)\<lparr>h_module := Some 1, h_function := Some 2, n_regs := Some 32,
          n_spills := Some 0\<rparr>,
        [GetCurrentDevice, GetDeviceProperties 0,
         LoadBinary (VStr ''add_kernel'') ''ELF'' (VInt 40000) 0])"
  by (simp add: init_handles_def sample_kernel_def sample_driver_def)

text \<open>
  Claim C7. For a handle that is not bound, on a device that reports a maximum and with
  an integer requirement declared in the metadata, \<^verbatim>\<open>_init_handles\<close> raises
  \<^verbatim>\<open>OutOfResources\<close> if and only if the requirement exceeds the maximum; the exception
  carries the requirement, the maximum and \<^verbatim>\<open>"shared memory"\<close>, and nothing is loaded.
  Otherwise the binary is loaded and, when the driver loads it, the handle is bound. An
  exception of the driver is never an \<^verbatim>\<open>OutOfResources\<close>.
\<close>

theorem init_handles_shared_memory:
  assumes "h_module self = None"
    and "get_current_device D = Inr device"
    and "get_device_properties D device = Inr props"
    and "map_of props ''max_shared_mem'' = Some max_shared"
    and "map_of (metadata self) ''shared'' = Some (VInt shared)"
  shows "((\<exists>a b c. fst (init_handles D self cs) = Some (OutOfResources a b c))
            \<longleftrightarrow> shared > max_shared)
     \<and> (shared > max_shared \<longrightarrow>
          init_handles D self cs
            = (Some (OutOfResources (VInt shared) max_shared ''shared memory''), self,
               cs @ [GetCurrentDevice, GetDeviceProperties device]))
     \<and> (\<not> shared > max_shared
          \<and> map_of (metadata self) ''name'' = Some name
          \<and> load_binary D name (kernel self) (VInt shared) device = Inr (m, f, r, s) \<longrightarrow>
          init_handles D self cs
            = (None,
               self\<lparr>h_module := Some m, h_function := Some f, n_regs := Some r,
                 n_spills := Some s\<rparr>,
               cs @ [GetCurrentDevice, GetDeviceProperties device,
                     LoadBinary name (kernel self) (VInt shared) device]))"
  using assms
  by (auto simp: init_handles_def Let_def
      split: sum.splits option.splits prod.splits bool.splits)

theorem init_handles_shared_memory_witness:
  "init_handles (sample_driver 49152) (sample_kernel 70000) []
     = (Some (OutOfResources (VInt 70000) 49152 ''shared memory''), sample_kernel 70000,
        [GetCurrentDevice, GetDeviceProperties 0])
   \<and> init_handles (sample_driver 49152) (sample_kernel 40000) []
     = (None,
        (sample_kernel 40000)\<lparr>h_module := Some 1, h_function := Some 2, n_regs := Some 32,
          n_spills := Some 0\<rparr>,
        [GetCurrentDevice, GetDeviceProperties 0,
         LoadBinary (VStr ''add_kernel'') ''ELF'' (VInt 40000) 0])"
proof -
  have a: "init_handles (sample_driver 49152) (sample_kernel 70000) []
     = (Some (OutOfResources (VInt 70000) 49152 ''shared memory''), sample_kernel 70000,
        [] @ [GetCurrentDevice, GetDeviceProperties 0])"
    using init_handles_shared_memory
      [where self = "sample_kernel 70000" and D = "sample_driver 49152"
        and device = 0 and props = "[(''max_shared_mem'', 49152)]" and max_shared = 49152
        and shared = 70000 and cs = "[]"]
    by (simp add: sample_kernel_def sample_driver_def)
  have b: "init_handles (sample_driver 49152) (sample_kernel 40000) []
     = (None,
        (sample_kernel 40000)\<lparr>h_module := Some 1, h_function := Some 2, n_regs := Some 32,
          n_spills := Some 0\<rparr>,
        [] @ [GetCurrentDevice, GetDeviceProperties 0,
         LoadBinary (VStr ''add_kernel'') (kernel (sample_kernel 40000)) (VInt 40000) 0])"
    using init_handles_shared_memory
      [where self = "sample_kernel 40000" and D = "sample_driver 49152"
        and device = 0 and props = "[(''max_shared_mem'', 49152)]" and max_shared = 49152
        and shared = 40000 and cs = "[]" and name = "VStr ''add_kernel''" and m = 1
        and f = 2 and r = 32 and s = 0]
    by (simp add: sample_kernel_def sample_driver_def)
  have k: "kernel (sample_kernel 40000) = ''ELF''"
    by (simp add: sample_kernel_def)
  show ?thesis
    using a b k by simp
qed

text \<open>
  Claim C8. After a call of \<^verbatim>\<open>_init_handles\<close> that returned without an exception, every
  later call, in whatever state the driver is, returns at once: it makes no driver call
  (no device query, no load) and leaves the handle, with its module, function, register
  and spill fields, as it is. The same holds for the two accesses that bind first.
\<close>

theorem init_handles_idempotent:
  assumes "init_handles D self cs = (None, self', cs')"
  shows "init_handles_seq Ds self' cs2 = (replicate (length Ds) None, self', cs2)
     \<and> init_handles D2 self' cs2 = (None, self', cs2)
     \<and> getattribute_c_wrapper D2 self' cs2 = (Inr (c_wrapper self'), self', cs2)
     \<and> getitem D2 self' grid cs2 = (Inr grid, self', cs2)"
  using init_handles_success_bound [OF assms]
  by (simp add: init_handles_seq_bound init_handles_bound getattribute_c_wrapper_def
      getitem_def)

theorem init_handles_idempotent_witness:
  "init_handles_seq [sample_driver 49152, sample_driver 0, sample_driver 49152]
     ((sample_kernel 40000)\<lparr>h_module := Some 1, h_function := Some 2, n_regs := Some 32,
        n_spills := Some 0\<rparr>)
     [GetCurrentDevice, GetDeviceProperties 0,
      LoadBinary (VStr ''add_kernel'') ''ELF'' (VInt 40000) 0]
   = ([None, None, None],
      (sample_kernel 40000)\<lparr>h_module := Some 1, h_function := Some 2, n_regs := Some 32,
        n_spills := Some 0\<rparr>,
      [GetCurrentDevice, GetDeviceProperties 0,
       LoadBinary (VStr ''add_kernel'') ''ELF'' (VInt 40000) 0])"
  using init_handles_idempotent [OF sample_bind_succeeds,
      where Ds = "[sample_driver 49152, sample_driver 0, sample_driver 49152]"
        and ?cs2.0 = "[GetCurrentDevice, GetDeviceProperties 0,
          LoadBinary (VStr ''add_kernel'') ''ELF'' (VInt 40000) 0]"]
  by simp

text \<open>
  The claim C9 as the specification states it fails: a handle that failed to bind with
  \<^verbatim>\<open>OutOfResources\<close> keeps no trace of the failure. The next call queries the device
  again and raises again, and on a device that reports enough shared memory the same
  handle binds.
\<close>

theorem init_handles_failure_not_latched:
  "init_handles (sample_driver 49152) (sample_kernel 70000) []
     = (Some (OutOfResources (VInt 70000) 49152 ''shared memory''), sample_kernel 70000,
        [GetCurrentDevice, GetDeviceProperties 0])
   \<and> init_handles (sample_driver 49152) (sample_kernel 70000)
        [GetCurrentDevice, GetDeviceProperties 0]
     = (Some (OutOfResources (VInt 70000) 49152 ''shared memory''), sample_kernel 70000,
        [GetCurrentDevice, GetDeviceProperties 0, GetCurrentDevice, GetDeviceProperties 0])
   \<and> fst (init_handles (sample_driver 101376) (sample_kernel 70000)
        [GetCurrentDevice, GetDeviceProperties 0]) = None"
  by (simp add: init_handles_def sample_kernel_def sample_driver_def)

text \<open>
  Claim C9, as the code has it. A call of \<^verbatim>\<open>_init_handles\<close> that raised \<^verbatim>\<open>OutOfResources\<close>
  leaves the handle unchanged and not bound. Every later call runs the binding attempt
  again, starting with the query for the current device; with the driver in the same
  state it queries the device properties again and raises the same exception.
\<close>

theorem init_handles_repeats_after_failure:
  assumes "init_handles D self cs = (Some (OutOfResources a b c), self', cs')"
  shows "self' = self \<and> h_module self' = None
     \<and> (\<exists>device. cs' = cs @ [GetCurrentDevice, GetDeviceProperties device]
           \<and> init_handles D self' cs'
               = (Some (OutOfResources a b c), self',
                  cs' @ [GetCurrentDevice, GetDeviceProperties device]))
     \<and> (\<forall>D2 cs2. \<exists>more. snd (snd (init_handles D2 self' cs2)) = cs2 @ GetCurrentDevice # more)"
proof -
  from assms have u: "h_module self = None"
    by (auto simp: init_handles_def split: if_splits)
  from assms u have s: "self' = self"
    by (auto simp: init_handles_def Let_def
        split: sum.splits option.splits bool.splits prod.splits)
  from assms u obtain device where d: "get_current_device D = Inr device"
    by (auto simp: init_handles_def Let_def
        split: sum.splits option.splits bool.splits prod.splits)
  from assms u d have c: "cs' = cs @ [GetCurrentDevice, GetDeviceProperties device]"
    by (auto simp: init_handles_def Let_def
        split: sum.splits option.splits bool.splits prod.splits)
  from assms u d s have again: "init_handles D self' cs'
               = (Some (OutOfResources a b c), self',
                  cs' @ [GetCurrentDevice, GetDeviceProperties device])"
    by (auto simp: init_handles_def Let_def
        split: sum.splits option.splits bool.splits prod.splits)
  have later: "\<exists>more. snd (snd (init_handles D2 self cs2)) = cs2 @ GetCurrentDevice # more"
    for D2 :: "('x, 'b, 'c) driver" and cs2
    using u
    by (auto simp: init_handles_def Let_def
        split: sum.splits option.splits bool.splits prod.splits)
  from u s c again later show ?thesis by blast
qed

theorem init_handles_repeats_after_failure_witness:
  "h_module (sample_kernel 70000) = None
   \<and> init_handles (sample_driver 49152) (sample_kernel 70000)
        [GetCurrentDevice, GetDeviceProperties 0]
     = (Some (OutOfResources (VInt 70000) 49152 ''shared memory''), sample_kernel 70000,
        [GetCurrentDevice, GetDeviceProperties 0, GetCurrentDevice, GetDeviceProperties 0])
   \<and> (\<forall>D2 cs2. \<exists>more.
         snd (snd (init_handles (D2 :: (nat, nat, nat) driver) (sample_kernel 70000) cs2))
           = cs2 @ GetCurrentDevice # more)"
  using init_handles_repeats_after_failure [OF sample_bind_fails]
  by auto

section \<open>The calls of \<^verbatim>\<open>compile\<close> on a miss\<close>

lemma index_of_Some:
  "index_of xs x = Some i \<Longrightarrow> i < length xs \<and> xs ! i = x \<and> x \<notin> set (take i xs)"
proof (induction xs arbitrary: i)
  case Nil
  then show ?case by simp
next
  case (Cons y ys)
  show ?case
  proof (cases "y = x")
    case True
    with Cons.prems show ?thesis by simp
  next
    case False
    with Cons.prems obtain j where j: "index_of ys x = Some j" "i = Suc j"
      by auto
    from Cons.IH [OF j(1)] False j(2) show ?thesis by simp
  qed
qed

lemma index_of_None: "index_of xs x = None \<longleftrightarrow> x \<notin> set xs"
  by (induction xs) auto

lemma lowering_total: "\<exists>evs res. lowering h name stages m md evs res"
proof (induction stages arbitrary: m md)
  case Nil
  show ?case by (blast intro: lowering_done)
next
  case (Cons st rest)
  obtain fmt lower where st: "st = (fmt, lower)" by (cases st)
  show ?case
  proof (cases "lower m md")
    case (Inl msg)
    with st show ?thesis by (blast intro: lowering_raise)
  next
    case (Inr p)
    obtain m' md' where p: "p = (m', md')" by (cases p)
    from Cons [of m' md'] obtain evs res where "lowering h name rest m' md' evs res"
      by blast
    with Inr p st show ?thesis by (blast intro: lowering_step)
  qed
qed

lemma run_stages_lowering:
  "lowering h name stages m md evs res \<Longrightarrow>
     calls (snd (run_stages h name stages m md cg w)) = calls w @ evs
   \<and> groups (snd (run_stages h name stages m md cg w)) = groups w
   \<and> files (snd (run_stages h name stages m md cg w)) = fold stored evs (files w)
   \<and> (case res of
        Inl msg \<Rightarrow> fst (run_stages h name stages m md cg w) = Inl (External msg)
      | Inr (m', md') \<Rightarrow> (\<exists>cg'. fst (run_stages h name stages m md cg w) = Inr (m', md', cg')))"
proof (induction arbitrary: cg w rule: lowering.induct)
  case (lowering_done h name m md)
  show ?case by simp
next
  case (lowering_step lower m md m' md' h name rest evs res fmt)
  let ?w2 = "snd (put h (Module m') (name @ ''.'' @ fmt) (log_call (Invoke fmt m md) w))"
  let ?cg2 = "AList.update (name @ ''.'' @ fmt) (storage_handle h (name @ ''.'' @ fmt)) cg"
  have eq: "run_stages h name ((fmt, lower) # rest) m md cg w
      = run_stages h name rest m' md' ?cg2 ?w2"
    using lowering_step.hyps(1) by (simp add: put_def Let_def)
  have c: "calls ?w2 = calls w @ [Invoke fmt m md, Put h (name @ ''.'' @ fmt) (Module m')]"
    by (simp add: put_def log_call_def)
  have g: "groups ?w2 = groups w"
    by (simp add: put_def log_call_def)
  have f: "files ?w2
      = fold stored [Invoke fmt m md, Put h (name @ ''.'' @ fmt) (Module m')] (files w)"
    by (simp add: put_def log_call_def storage_handle_def)
  note IH = lowering_step.IH [of ?cg2 ?w2]
  have "files (snd (run_stages h name rest m' md' ?cg2 ?w2)) = fold stored evs (files ?w2)"
    using IH by blast
  also have "\<dots> = fold stored evs
      (fold stored [Invoke fmt m md, Put h (name @ ''.'' @ fmt) (Module m')] (files w))"
    by (simp only: f)
  also have "\<dots>
      = fold stored (Invoke fmt m md # Put h (name @ ''.'' @ fmt) (Module m') # evs) (files w)"
    by (simp only: fold_simps comp_apply)
  finally have fs: "files (snd (run_stages h name rest m' md' ?cg2 ?w2))
      = fold stored (Invoke fmt m md # Put h (name @ ''.'' @ fmt) (Module m') # evs) (files w)" .
  have cs: "calls (snd (run_stages h name rest m' md' ?cg2 ?w2))
      = calls w @ Invoke fmt m md # Put h (name @ ''.'' @ fmt) (Module m') # evs"
    using IH c by simp
  have gs: "groups (snd (run_stages h name rest m' md' ?cg2 ?w2)) = groups w"
    using IH g by simp
  have rs: "case res of
        Inl msg \<Rightarrow> fst (run_stages h name rest m' md' ?cg2 ?w2) = Inl (External msg)
      | Inr (m'', md'') \<Rightarrow>
          (\<exists>cg'. fst (run_stages h name rest m' md' ?cg2 ?w2) = Inr (m'', md'', cg'))"
    using IH by blast
  from cs gs fs rs show ?case
    unfolding eq by blast
next
  case (lowering_raise lower m md msg h name fmt rest)
  then show ?case by (simp add: log_call_def)
qed

lemma lowering_no_other_calls:
  "lowering h name stages m md evs res \<Longrightarrow> list_all (\<lambda>e. is_Invoke e \<or> is_Put e) evs"
  by (induction rule: lowering.induct) simp_all

lemma invoked_formats_Cons:
  "invoked_formats (Invoke fmt m md # evs) = fmt # invoked_formats evs"
  "invoked_formats (Put h n a # evs) = invoked_formats evs"
  "invoked_formats (GetGroup h n # evs) = invoked_formats evs"
  "invoked_formats (MakeIR s opts # evs) = invoked_formats evs"
  "invoked_formats (PutGroup h n g # evs) = invoked_formats evs"
  "invoked_formats (MakeLauncherStub s md # evs) = invoked_formats evs"
  "invoked_formats [] = []"
  by (simp_all add: invoked_formats_def map_filter_simps)

lemma invoked_formats_append:
  "invoked_formats (xs @ ys) = invoked_formats xs @ invoked_formats ys"
  by (simp add: invoked_formats_def map_filter_def)

lemma lowering_invoked:
  "lowering h name stages m md evs res \<Longrightarrow>
     (\<exists>not_run. map fst stages = invoked_formats evs @ not_run
        \<and> ((\<exists>p. res = Inr p) \<longrightarrow> not_run = []))"
  by (induction rule: lowering.induct) (auto simp: invoked_formats_Cons)

lemma lowering_keeps:
  "lowering h name stages m md evs res \<Longrightarrow> \<forall>st \<in> set stages. stage_keeps k (snd st) \<Longrightarrow>
     res = Inr (m', md') \<Longrightarrow> map_of md' k = map_of md k"
proof (induction arbitrary: m' md' rule: lowering.induct)
  case (lowering_done h name m md)
  then show ?case by simp
next
  case (lowering_step lower m md m1 md1 h name rest evs res fmt)
  from lowering_step.prems(1) have "stage_keeps k lower" by simp
  with lowering_step.hyps(1) have "map_of md1 k = map_of md k"
    unfolding stage_keeps_def by blast
  moreover from lowering_step.IH [of m' md'] lowering_step.prems
  have "map_of md' k = map_of md1 k" by simp
  ultimately show ?case by simp
next
  case (lowering_raise lower m md msg h name fmt rest)
  then show ?case by simp
qed

lemma run_stages_cache_group:
  "run_stages h name stages m md cg w = (Inr (m', md', cg'), w') \<Longrightarrow>
     (\<forall>fmt \<in> set (map fst stages).
        map_of cg' (name @ ''.'' @ fmt) = Some (storage_handle h (name @ ''.'' @ fmt)))
   \<and> (\<forall>k. k \<notin> (\<lambda>fmt. name @ ''.'' @ fmt) ` set (map fst stages) \<longrightarrow>
          map_of cg' k = map_of cg k)"
proof (induction stages arbitrary: m md cg w)
  case Nil
  then show ?case by simp
next
  case (Cons st rest)
  obtain fmt lower where st: "st = (fmt, lower)" by (cases st)
  from Cons.prems st obtain m1 md1 where low: "lower m md = Inr (m1, md1)"
    by (cases "lower m md") (auto simp: Let_def)
  let ?key = "name @ ''.'' @ fmt"
  let ?cg2 = "AList.update ?key (storage_handle h ?key) cg"
  let ?w2 = "snd (put h (Module m1) ?key (log_call (Invoke fmt m md) w))"
  from Cons.prems st low
  have "run_stages h name rest m1 md1 ?cg2 ?w2 = (Inr (m', md', cg'), w')"
    by (simp add: put_def Let_def)
  from Cons.IH [OF this]
  have ih1: "\<forall>f \<in> set (map fst rest).
        map_of cg' (name @ ''.'' @ f) = Some (storage_handle h (name @ ''.'' @ f))"
    and ih2: "\<forall>k. k \<notin> (\<lambda>f. name @ ''.'' @ f) ` set (map fst rest) \<longrightarrow>
          map_of cg' k = map_of ?cg2 k"
    by blast+
  have a: "map_of cg' ?key = Some (storage_handle h ?key)"
  proof (cases "fmt \<in> set (map fst rest)")
    case True
    with ih1 show ?thesis by blast
  next
    case False
    then have "?key \<notin> (\<lambda>f. name @ ''.'' @ f) ` set (map fst rest)" by auto
    with ih2 have "map_of cg' ?key = map_of ?cg2 ?key" by blast
    then show ?thesis by (simp add: update_conv')
  qed
  have b: "map_of cg' k = map_of cg k"
    if "k \<notin> (\<lambda>f. name @ ''.'' @ f) ` set (map fst (st # rest))" for k
  proof -
    from that st have k1: "k \<noteq> ?key" and k2: "k \<notin> (\<lambda>f. name @ ''.'' @ f) ` set (map fst rest)"
      by auto
    from ih2 k2 have "map_of cg' k = map_of ?cg2 k" by blast
    with k1 show ?thesis by (simp add: update_conv')
  qed
  from a ih1 b st show ?case by auto
qed

lemma compile_after_setup:
  assumes "make_source X (files w) src0 signature constants config = Inr src"
    and "CUDABackend X device_type = Inr backend"
    and "parse_options backend kwargs = Inr options0"
    and "update_options src options0 = Inr options"
    and "cache_key X src backend options = Inr key"
  shows "compile X src0 device_type signature config constants extern_libs kwargs w =
     (case map_of (case groups w (md5_hexdigest X key, src_name src @ ''.json'') of
                     None \<Rightarrow> [] | Some g \<Rightarrow> g) (src_name src @ ''.json'') of
        Some metadata_path \<Rightarrow>
          compile_hit X backend src metadata_path
            (log_call (GetGroup (md5_hexdigest X key) (src_name src @ ''.json'')) w)
      | None \<Rightarrow>
          compile_miss X backend src device_type signature config extern_libs options
            (md5_hexdigest X key) (src_name src @ ''.json'')
            (case groups w (md5_hexdigest X key, src_name src @ ''.json'') of
               None \<Rightarrow> [] | Some g \<Rightarrow> g)
            (log_call (GetGroup (md5_hexdigest X key) (src_name src @ ''.json'')) w))"
  using assms by (simp add: compile_def external_def get_group_def Let_def)

lemma compile_miss_run:
  assumes md0: "initial_metadata X device_type options signature config = Inr md0"
    and st: "add_stages backend extern_libs options = Inr stages"
    and ix: "index_of (map fst stages) (src_ext src) = Some i"
    and ir: "make_ir X src options = Inr m0"
    and low: "lowering h (src_name src) (drop i stages) m0 md0 evs res"
    and run: "compile_miss X backend src device_type signature config extern_libs options h n
                cg w = (r, w')"
  shows "(\<forall>msg. res = Inl msg \<longrightarrow>
            r = Inl (External msg) \<and> calls w' = calls w @ MakeIR src options # evs
            \<and> groups w' = groups w)
     \<and> (\<forall>m md msg. res = Inr (m, md) \<and> json_dumps X md = Inl msg \<longrightarrow>
            r = Inl (External msg) \<and> calls w' = calls w @ MakeIR src options # evs
            \<and> groups w' = groups w)
     \<and> (\<forall>m md text. res = Inr (m, md) \<and> json_dumps X md = Inr text \<longrightarrow>
            (\<exists>cg'. calls w' = calls w @ MakeIR src options # evs
                      @ [Put h n (Text text), PutGroup h n cg', MakeLauncherStub src md]
                \<and> groups w' = (groups w)((h, n) \<mapsto> cg')
                \<and> files w' (storage_handle h n) = Some (Text text)
                \<and> files w' = (fold stored evs (files w))(storage_handle h n \<mapsto> Text text)
                \<and> (\<forall>so_path. make_launcher_stub backend src md = Inr so_path \<longrightarrow>
                      r = CompiledKernel_init X (files w') so_path (storage_handle h n))
                \<and> map_of cg' n = Some (storage_handle h n)
                \<and> (\<forall>fmt \<in> set (map fst (drop i stages)).
                      map_of cg' (src_name src @ ''.'' @ fmt)
                        = Some (storage_handle h (src_name src @ ''.'' @ fmt)))))"
proof -
  let ?w1 = "log_call (MakeIR src options) w"
  let ?rs = "run_stages h (src_name src) (drop i stages) m0 md0 cg ?w1"
  obtain r2 w2 where rs: "?rs = (r2, w2)" by (cases ?rs)
  note L = run_stages_lowering [OF low, of cg ?w1, unfolded rs]
  have c1: "calls w2 = calls w @ MakeIR src options # evs"
    using L by (simp add: log_call_def)
  have g1: "groups w2 = groups w"
    using L by (simp add: log_call_def)
  have f1: "files w2 = fold stored evs (files w)"
    using L by (simp add: log_call_def)
  have unf: "compile_miss X backend src device_type signature config extern_libs options h n cg w
    = (case ?rs of
         (Inl e, w2) \<Rightarrow> (Inl e, w2)
       | (Inr (last_module, md', cache_group'), w2) \<Rightarrow>
           (case external (json_dumps X md') of
              Inl e \<Rightarrow> (Inl e, w2)
            | Inr text \<Rightarrow>
                (case put h (Text text) n w2 of
                   (p, w3) \<Rightarrow>
                     (let cache_group'' = AList.update n p cache_group';
                          w4 = put_group h n cache_group'' w3;
                          w5 = log_call (MakeLauncherStub src md') w4
                      in case external (make_launcher_stub backend src md') of
                           Inl e \<Rightarrow> (Inl e, w5)
                         | Inr so_path \<Rightarrow>
                             (case map_of cache_group'' n of
                                None \<Rightarrow> (Inl (TypeError ''Path''), w5)
                              | Some metadata_path \<Rightarrow>
                                  (CompiledKernel_init X (files w5) so_path metadata_path, w5))))))"
    using md0 st ix ir by (simp add: compile_miss_def external_def Let_def)
  note run' = run [unfolded unf rs]
  have A: "\<forall>msg. res = Inl msg \<longrightarrow>
            r = Inl (External msg) \<and> calls w' = calls w @ MakeIR src options # evs
            \<and> groups w' = groups w"
  proof (intro allI impI)
    fix msg
    assume "res = Inl msg"
    with L have "r2 = Inl (External msg)" by simp
    with run' have "r = Inl (External msg)" "w' = w2" by simp_all
    with c1 g1 show "r = Inl (External msg) \<and> calls w' = calls w @ MakeIR src options # evs
            \<and> groups w' = groups w" by simp
  qed
  have B: "\<forall>m md msg. res = Inr (m, md) \<and> json_dumps X md = Inl msg \<longrightarrow>
            r = Inl (External msg) \<and> calls w' = calls w @ MakeIR src options # evs
            \<and> groups w' = groups w"
  proof (intro allI impI)
    fix m md msg
    assume a: "res = Inr (m, md) \<and> json_dumps X md = Inl msg"
    with L obtain cg' where "r2 = Inr (m, md, cg')" by auto
    with run' a have "r = Inl (External msg)" "w' = w2"
      by (simp_all add: external_def)
    with c1 g1 show "r = Inl (External msg) \<and> calls w' = calls w @ MakeIR src options # evs
            \<and> groups w' = groups w" by simp
  qed
  have C: "\<forall>m md text. res = Inr (m, md) \<and> json_dumps X md = Inr text \<longrightarrow>
            (\<exists>cg'. calls w' = calls w @ MakeIR src options # evs
                      @ [Put h n (Text text), PutGroup h n cg', MakeLauncherStub src md]
                \<and> groups w' = (groups w)((h, n) \<mapsto> cg')
                \<and> files w' (storage_handle h n) = Some (Text text)
                \<and> files w' = (fold stored evs (files w))(storage_handle h n \<mapsto> Text text)
                \<and> (\<forall>so_path. make_launcher_stub backend src md = Inr so_path \<longrightarrow>
                      r = CompiledKernel_init X (files w') so_path (storage_handle h n))
                \<and> map_of cg' n = Some (storage_handle h n)
                \<and> (\<forall>fmt \<in> set (map fst (drop i stages)).
                      map_of cg' (src_name src @ ''.'' @ fmt)
                        = Some (storage_handle h (src_name src @ ''.'' @ fmt))))"
  proof (intro allI impI)
    fix m md js
    assume a: "res = Inr (m, md) \<and> json_dumps X md = Inr js"
    with L obtain cg' where r2: "r2 = Inr (m, md, cg')" by auto
    let ?cg2 = "AList.update n (storage_handle h n) cg'"
    let ?w5 = "log_call (MakeLauncherStub src md)
                 (put_group h n ?cg2 (snd (put h (Text js) n w2)))"
    have w': "w' = ?w5"
      using run' r2 a
      by (simp add: external_def put_def Let_def update_conv' split: sum.splits option.splits)
    have "calls ?w5 = calls w @ MakeIR src options # evs
                      @ [Put h n (Text js), PutGroup h n ?cg2, MakeLauncherStub src md]"
      using c1 by (simp add: log_call_def put_def put_group_def)
    moreover have "groups ?w5 = (groups w)((h, n) \<mapsto> ?cg2)"
      using g1 by (simp add: log_call_def put_def put_group_def)
    moreover have "files ?w5 (storage_handle h n) = Some (Text js)"
      by (simp add: log_call_def put_def put_group_def)
    moreover have "files ?w5 = (fold stored evs (files w))(storage_handle h n \<mapsto> Text js)"
      using f1 by (simp add: log_call_def put_def put_group_def)
    moreover have "\<forall>so_path. make_launcher_stub backend src md = Inr so_path \<longrightarrow>
                      r = CompiledKernel_init X (files ?w5) so_path (storage_handle h n)"
      using run' r2 a
      by (simp add: external_def put_def Let_def update_conv' split: sum.splits option.splits)
    moreover have "map_of ?cg2 n = Some (storage_handle h n)"
      by (simp add: update_conv')
    moreover have "\<forall>fmt \<in> set (map fst (drop i stages)).
                      map_of ?cg2 (src_name src @ ''.'' @ fmt)
                        = Some (storage_handle h (src_name src @ ''.'' @ fmt))"
      using run_stages_cache_group [OF rs [unfolded r2]]
      by (simp add: update_conv')
    ultimately show "\<exists>cg'. calls w' = calls w @ MakeIR src options # evs
                      @ [Put h n (Text js), PutGroup h n cg', MakeLauncherStub src md]
                \<and> groups w' = (groups w)((h, n) \<mapsto> cg')
                \<and> files w' (storage_handle h n) = Some (Text js)
                \<and> files w' = (fold stored evs (files w))(storage_handle h n \<mapsto> Text js)
                \<and> (\<forall>so_path. make_launcher_stub backend src md = Inr so_path \<longrightarrow>
                      r = CompiledKernel_init X (files w') so_path (storage_handle h n))
                \<and> map_of cg' n = Some (storage_handle h n)
                \<and> (\<forall>fmt \<in> set (map fst (drop i stages)).
                      map_of cg' (src_name src @ ''.'' @ fmt)
                        = Some (storage_handle h (src_name src @ ''.'' @ fmt)))"
      unfolding w' by blast
  qed
  show ?thesis
    by (intro conjI) (rule A, rule B, rule C)
qed

lemma compile_miss_persisted:
  assumes md0: "initial_metadata X device_type options signature config = Inr md0"
    and st: "add_stages backend extern_libs options = Inr stages"
    and ix: "index_of (map fst stages) (src_ext src) = Some i"
    and ir: "make_ir X src options = Inr m0"
    and low: "lowering h (src_name src) (drop i stages) m0 md0 evs res"
    and run: "compile_miss X backend src device_type signature config extern_libs options h n
                cg w = (r, w')"
    and res: "res = Inr (m, md)"
    and js: "json_dumps X md = Inr js"
  shows "files w' = (fold stored evs (files w))(storage_handle h n \<mapsto> Text js)"
    and "make_launcher_stub backend src md = Inr so_path \<Longrightarrow>
           r = CompiledKernel_init X (files w') so_path (storage_handle h n)"
    and "\<exists>cg'. calls w' = calls w @ MakeIR src options # evs
                      @ [Put h n (Text js), PutGroup h n cg', MakeLauncherStub src md]"
  using compile_miss_run [OF md0 st ix ir low run] res js by blast+

section \<open>The cache hit\<close>

lemma map_of_dict_merge_notin:
  "k \<notin> fst ` set b \<Longrightarrow> map_of (dict_merge a b) k = map_of a k"
proof (induction b arbitrary: a)
  case Nil
  show ?case by (simp add: dict_merge_def)
next
  case (Cons kv b)
  obtain k' v' where kv: "kv = (k', v')" by (cases kv)
  from Cons.prems kv have ne: "k \<noteq> k'" and notin: "k \<notin> fst ` set b" by auto
  have "dict_merge a (kv # b) = dict_merge (AList.update k' v' a) b"
    by (simp add: dict_merge_def kv)
  with Cons.IH [OF notin, of "AList.update k' v' a"] ne show ?case
    by (simp add: update_conv')
qed

lemma map_of_dict_merge_distinct:
  "distinct (map fst b) \<Longrightarrow> map_of b k = Some v \<Longrightarrow> map_of (dict_merge a b) k = Some v"
proof (induction b arbitrary: a)
  case Nil
  then show ?case by simp
next
  case (Cons kv b)
  obtain k' v' where kv: "kv = (k', v')" by (cases kv)
  have step: "dict_merge a (kv # b) = dict_merge (AList.update k' v' a) b"
    by (simp add: dict_merge_def kv)
  show ?case
  proof (cases "k = k'")
    case True
    with Cons.prems kv have "v = v'" and "k \<notin> fst ` set b" by auto
    with map_of_dict_merge_notin [of k b "AList.update k' v' a"] True step show ?thesis
      by (simp add: update_conv')
  next
    case False
    with Cons.prems kv have "distinct (map fst b)" "map_of b k = Some v" by auto
    from Cons.IH [OF this] step show ?thesis by simp
  qed
qed

lemma initial_metadata_key:
  assumes "initial_metadata X device_type options signature config = Inr md0"
    and "distinct (map fst options)"
    and "map_of options k = Some v"
    and "k \<notin> fst ` set (get_env_vars X)"
    and "k \<noteq> ''ids_of_folded_args''"
  shows "map_of md0 k = Some v"
proof -
  let ?env = "map (\<lambda>(k, v). (k, VStr v)) (get_env_vars X)"
  let ?md = "dict_merge (dict_merge [(''device_type'', device_type)] options) ?env"
  have "fst ` set ?env = fst ` set (get_env_vars X)"
    by force
  with assms(4) have "k \<notin> fst ` set ?env" by simp
  then have "map_of ?md k = map_of (dict_merge [(''device_type'', device_type)] options) k"
    by (rule map_of_dict_merge_notin)
  also have "\<dots> = Some v"
    using assms(2,3) by (rule map_of_dict_merge_distinct)
  finally have md: "map_of ?md k = Some v" .
  from assms(1) have "md0 = ?md \<or> (\<exists>ids. md0 = AList.update ''ids_of_folded_args'' ids ?md)"
    by (auto simp: initial_metadata_def Let_def split: option.splits)
  with md assms(5) show ?thesis
    by (auto simp: update_conv')
qed

lemma compile_hit_cases:
  assumes "compile_hit X backend src mp w = (r, w')"
  shows "files w' = files w \<and> groups w' = groups w
     \<and> (\<forall>e. read_text X (files w) mp = Inl e \<longrightarrow> r = Inl e \<and> calls w' = calls w)
     \<and> (\<forall>js msg. read_text X (files w) mp = Inr js \<and> json_loads X js = Inl msg \<longrightarrow>
           r = Inl (External msg) \<and> calls w' = calls w)
     \<and> (\<forall>js md. read_text X (files w) mp = Inr js \<and> json_loads X js = Inr md \<longrightarrow>
           calls w' = calls w @ [MakeLauncherStub src md]
         \<and> (\<forall>msg. make_launcher_stub backend src md = Inl msg \<longrightarrow> r = Inl (External msg))
         \<and> (\<forall>so_path. make_launcher_stub backend src md = Inr so_path \<longrightarrow>
               r = CompiledKernel_init X (files w) so_path mp))"
  using assms
  by (auto simp: compile_hit_def external_def log_call_def Let_def split: sum.splits)

lemma CompiledKernel_init_Inr:
  "CompiledKernel_init X fs so_path mp = Inr k \<Longrightarrow>
     (\<exists>js. read_text X fs mp = Inr js \<and> json_loads X js = Inr (metadata k))
   \<and> h_module k = None \<and> h_function k = None \<and> n_regs k = None \<and> n_spills k = None"
  by (auto simp: CompiledKernel_init_def external_def Let_def split: sum.splits option.splits)

text \<open>
  Claim C3. Let the probe of line 174 return a mapping that holds the metadata file.
  Then \<^verbatim>\<open>compile\<close> writes no file and no group, and after the probe it calls nothing but
  the launcher stub: no stage function and no \<^verbatim>\<open>make_ir\<close>. When the stored metadata can
  be read and decoded and the stub is built, the calls are the probe and the stub on the
  decoded metadata, and the result is the handle built from the stub and the stored
  metadata path; a handle that is returned carries the metadata as decoded from the stored
  text and is not bound. A run that calls a stage function or \<^verbatim>\<open>make_ir\<close> is a run whose
  probe missed.
\<close>

theorem compile_cache_hit:
  assumes src: "make_source X (files w) src0 signature constants config = Inr src"
    and be: "CUDABackend X device_type = Inr backend"
    and po: "parse_options backend kwargs = Inr options0"
    and uo: "update_options src options0 = Inr options"
    and ck: "cache_key X src backend options = Inr key"
    and h: "h = md5_hexdigest X key"
    and n: "n = src_name src @ ''.json''"
    and run: "compile X src0 device_type signature config constants extern_libs kwargs w = (r, w')"
  shows "(\<forall>g metadata_path. groups w (h, n) = Some g \<and> map_of g n = Some metadata_path \<longrightarrow>
            files w' = files w \<and> groups w' = groups w
          \<and> (\<exists>new. calls w' = calls w @ GetGroup h n # new \<and> list_all is_MakeLauncherStub new)
          \<and> (\<forall>js md so_path.
                read_text X (files w) metadata_path = Inr js \<and> json_loads X js = Inr md
                \<and> make_launcher_stub backend src md = Inr so_path \<longrightarrow>
                calls w' = calls w @ [GetGroup h n, MakeLauncherStub src md]
                \<and> r = CompiledKernel_init X (files w) so_path metadata_path)
          \<and> (\<forall>k. r = Inr k \<longrightarrow>
                (\<exists>js. read_text X (files w) metadata_path = Inr js
                   \<and> json_loads X js = Inr (metadata k))
                \<and> h_module k = None \<and> h_function k = None))
       \<and> (list_ex (\<lambda>e. is_Invoke e \<or> is_MakeIR e) (drop (length (calls w)) (calls w')) \<longrightarrow>
            map_of (case groups w (h, n) of None \<Rightarrow> [] | Some g \<Rightarrow> g) n = None)"
proof -
  note unf = compile_after_setup [OF src be po uo ck, where extern_libs = extern_libs, folded h n]
  have hit: "files w' = files w \<and> groups w' = groups w
          \<and> (\<exists>new. calls w' = calls w @ GetGroup h n # new \<and> list_all is_MakeLauncherStub new)
          \<and> (\<forall>js md so_path.
                read_text X (files w) metadata_path = Inr js \<and> json_loads X js = Inr md
                \<and> make_launcher_stub backend src md = Inr so_path \<longrightarrow>
                calls w' = calls w @ [GetGroup h n, MakeLauncherStub src md]
                \<and> r = CompiledKernel_init X (files w) so_path metadata_path)
          \<and> (\<forall>k. r = Inr k \<longrightarrow>
                (\<exists>js. read_text X (files w) metadata_path = Inr js
                   \<and> json_loads X js = Inr (metadata k))
                \<and> h_module k = None \<and> h_function k = None)"
    if g: "groups w (h, n) = Some g" "map_of g n = Some metadata_path" for g metadata_path
  proof -
    let ?w1 = "log_call (GetGroup h n) w"
    from run [unfolded unf] g have ch: "compile_hit X backend src metadata_path ?w1 = (r, w')"
      by simp
    note H = compile_hit_cases [OF ch]
    have w1: "files ?w1 = files w" "groups ?w1 = groups w" "calls ?w1 = calls w @ [GetGroup h n]"
      by (simp_all add: log_call_def)
    have a: "files w' = files w \<and> groups w' = groups w"
      using H w1 by simp
    have b: "\<exists>new. calls w' = calls w @ GetGroup h n # new \<and> list_all is_MakeLauncherStub new"
    proof (cases "read_text X (files w) metadata_path")
      case (Inl e)
      with H w1 have "calls w' = calls w @ GetGroup h n # []" by simp
      then show ?thesis by (intro exI [of _ "[]"]) simp
    next
      case (Inr js)
      show ?thesis
      proof (cases "json_loads X js")
        case (Inl msg)
        with H w1 Inr have "calls w' = calls w @ GetGroup h n # []" by simp
        then show ?thesis by (intro exI [of _ "[]"]) simp
      next
        case (Inr md)
        with H w1 \<open>read_text X (files w) metadata_path = Inr js\<close>
        have "calls w' = calls w @ GetGroup h n # [MakeLauncherStub src md]" by simp
        then show ?thesis by (intro exI [of _ "[MakeLauncherStub src md]"]) simp
      qed
    qed
    have c: "\<forall>js md so_path.
                read_text X (files w) metadata_path = Inr js \<and> json_loads X js = Inr md
                \<and> make_launcher_stub backend src md = Inr so_path \<longrightarrow>
                calls w' = calls w @ [GetGroup h n, MakeLauncherStub src md]
                \<and> r = CompiledKernel_init X (files w) so_path metadata_path"
      using H w1 by auto
    have d: "\<forall>k. r = Inr k \<longrightarrow>
                (\<exists>js. read_text X (files w) metadata_path = Inr js
                   \<and> json_loads X js = Inr (metadata k))
                \<and> h_module k = None \<and> h_function k = None"
    proof (intro allI impI)
      fix k
      assume rk: "r = Inr k"
      show "(\<exists>js. read_text X (files w) metadata_path = Inr js
                   \<and> json_loads X js = Inr (metadata k))
                \<and> h_module k = None \<and> h_function k = None"
      proof (cases "read_text X (files w) metadata_path")
        case (Inl e)
        with H w1 rk show ?thesis by simp
      next
        case (Inr js)
        show ?thesis
        proof (cases "json_loads X js")
          case (Inl msg)
          with H w1 rk Inr show ?thesis by simp
        next
          case md: (Inr md)
          show ?thesis
          proof (cases "make_launcher_stub backend src md")
            case (Inl msg)
            with H w1 rk Inr md show ?thesis by simp
          next
            case so: (Inr so_path)
            with H w1 Inr md have "r = CompiledKernel_init X (files w) so_path metadata_path"
              by simp
            with rk CompiledKernel_init_Inr [of X "files w" so_path metadata_path k]
            show ?thesis by simp
          qed
        qed
      qed
    qed
    from a b c d show ?thesis by blast
  qed
  have only_miss: "map_of (case groups w (h, n) of None \<Rightarrow> [] | Some g \<Rightarrow> g) n = None"
    if ev: "list_ex (\<lambda>e. is_Invoke e \<or> is_MakeIR e) (drop (length (calls w)) (calls w'))"
  proof (rule ccontr)
    assume "map_of (case groups w (h, n) of None \<Rightarrow> [] | Some g \<Rightarrow> g) n \<noteq> None"
    then obtain g mp where g: "groups w (h, n) = Some g" "map_of g n = Some mp"
      by (auto split: option.splits)
    from hit [OF g] obtain new where
      new: "calls w' = calls w @ GetGroup h n # new" "list_all is_MakeLauncherStub new"
      by blast
    from new(2) have "\<not> list_ex (\<lambda>e. is_Invoke e \<or> is_MakeIR e) new"
      by (induction new) (auto simp: is_MakeLauncherStub_def)
    with new(1) ev show False by simp
  qed
  from hit only_miss show ?thesis by blast
qed

section \<open>The stages run and the group written\<close>

lemma lowering_no_PutGroup:
  "lowering h name stages m md evs res \<Longrightarrow> \<not> list_ex is_PutGroup evs"
  by (induction rule: lowering.induct) simp_all

lemma invoked_formats_none: "\<not> list_ex is_Invoke rest \<Longrightarrow> invoked_formats rest = []"
proof (induction rest)
  case Nil
  show ?case by (simp add: invoked_formats_Cons)
next
  case (Cons e rest)
  then show ?case by (cases e) (simp_all add: invoked_formats_Cons)
qed

text \<open>
  Claim C4. On a miss, with the metadata initialised, the stage chain \<open>stages\<close> registered
  and the initial module \<open>m0\<close> made: \<open>i\<close> is the first position of the source's format in
  the chain, so no stage before \<open>i\<close> has this format. After the probe and \<^verbatim>\<open>make_ir\<close> the
  calls of \<^verbatim>\<open>compile\<close> are the calls \<open>evs\<close> of the lowering steps of the specification
  over the stages from \<open>i\<close> on, starting at \<open>m0\<close> (each stage is invoked on the current
  module and metadata, its artifact is put under \<^verbatim>\<open>{name}.{format}\<close>, and its result is
  the module of the next stage), and no stage function is invoked after them. The formats
  invoked are a prefix of the formats from \<open>i\<close> on, all of them when no stage raises; with
  distinct formats in the chain, no stage before \<open>i\<close> is invoked.
\<close>

theorem compile_pipeline_on_miss:
  assumes src: "make_source X (files w) src0 signature constants config = Inr src"
    and be: "CUDABackend X device_type = Inr backend"
    and po: "parse_options backend kwargs = Inr options0"
    and uo: "update_options src options0 = Inr options"
    and ck: "cache_key X src backend options = Inr key"
    and h: "h = md5_hexdigest X key"
    and n: "n = src_name src @ ''.json''"
    and miss: "map_of (case groups w (h, n) of None \<Rightarrow> [] | Some g \<Rightarrow> g) n = None"
    and md0: "initial_metadata X device_type options signature config = Inr md0"
    and st: "add_stages backend extern_libs options = Inr stages"
    and ix: "index_of (map fst stages) (src_ext src) = Some i"
    and ir: "make_ir X src options = Inr m0"
    and low: "lowering h (src_name src) (drop i stages) m0 md0 evs res"
    and run: "compile X src0 device_type signature config constants extern_libs kwargs w = (r, w')"
  shows "i < length stages \<and> fst (stages ! i) = src_ext src
     \<and> src_ext src \<notin> set (map fst (take i stages))
     \<and> (\<exists>rest. calls w' = calls w @ [GetGroup h n, MakeIR src options] @ evs @ rest
            \<and> \<not> list_ex is_Invoke rest)
     \<and> invoked_formats (drop (length (calls w)) (calls w')) = invoked_formats evs
     \<and> (\<exists>not_run. map fst (drop i stages) = invoked_formats evs @ not_run
            \<and> ((\<exists>p. res = Inr p) \<longrightarrow> not_run = []))
     \<and> (distinct (map fst stages) \<longrightarrow>
           set (invoked_formats evs) \<inter> set (map fst (take i stages)) = {})"
proof -
  let ?cg = "case groups w (h, n) of None \<Rightarrow> [] | Some g \<Rightarrow> g"
  let ?w1 = "log_call (GetGroup h n) w"
  note unf = compile_after_setup [OF src be po uo ck, where extern_libs = extern_libs, folded h n]
  from run [unfolded unf] miss
  have cm: "compile_miss X backend src device_type signature config extern_libs options h n
              ?cg ?w1 = (r, w')"
    by simp
  have w1: "calls ?w1 = calls w @ [GetGroup h n]"
    by (simp add: log_call_def)
  from index_of_Some [OF ix]
  have i1: "i < length stages" and i3: "src_ext src \<notin> set (map fst (take i stages))"
    and i2': "map fst stages ! i = src_ext src"
    by (simp_all add: take_map)
  from i1 i2' have i2: "fst (stages ! i) = src_ext src"
    by simp
  note R = compile_miss_run [OF md0 st ix ir low cm, unfolded w1]
  from lowering_invoked [OF low] obtain not_run where
    nr: "map fst (drop i stages) = invoked_formats evs @ not_run"
      "(\<exists>p. res = Inr p) \<longrightarrow> not_run = []"
    by blast
  have d: "set (invoked_formats evs) \<inter> set (map fst (take i stages)) = {}"
    if dist: "distinct (map fst stages)"
  proof -
    have "map fst stages = map fst (take i stages) @ map fst (drop i stages)"
      by (simp flip: map_append)
    with dist have "set (map fst (take i stages)) \<inter> set (map fst (drop i stages)) = {}"
      by (metis distinct_append)
    with nr(1) show ?thesis by auto
  qed
  have "\<exists>rest. calls w' = calls w @ [GetGroup h n, MakeIR src options] @ evs @ rest
          \<and> \<not> list_ex is_Invoke rest"
  proof (cases res)
    case (Inl msg)
    with R have "calls w' = calls w @ [GetGroup h n, MakeIR src options] @ evs @ []"
      by simp
    then show ?thesis by (intro exI [of _ "[]"]) simp
  next
    case (Inr p)
    obtain m md where p: "p = (m, md)" by (cases p)
    show ?thesis
    proof (cases "json_dumps X md")
      case (Inl msg)
      with R Inr p have "calls w' = calls w @ [GetGroup h n, MakeIR src options] @ evs @ []"
        by simp
      then show ?thesis by (intro exI [of _ "[]"]) simp
    next
      case js: (Inr js)
      with R Inr p obtain cg' where
        "calls w' = calls w @ [GetGroup h n, MakeIR src options] @ evs
           @ [Put h n (Text js), PutGroup h n cg', MakeLauncherStub src md]"
        by auto
      then show ?thesis
        by (intro exI [of _ "[Put h n (Text js), PutGroup h n cg', MakeLauncherStub src md]"])
          simp
    qed
  qed
  then obtain rest where
    rest: "calls w' = calls w @ [GetGroup h n, MakeIR src options] @ evs @ rest"
      "\<not> list_ex is_Invoke rest"
    by blast
  from rest(2) have "invoked_formats rest = []"
    by (rule invoked_formats_none)
  with rest(1)
  have inv: "invoked_formats (drop (length (calls w)) (calls w')) = invoked_formats evs"
    by (simp add: invoked_formats_Cons invoked_formats_append)
  from i1 i2 i3 rest inv nr d show ?thesis by blast
qed

text \<open>
  Claim C2. On a miss the lowering steps call stage functions and \<^verbatim>\<open>put\<close> only: each
  artifact is put right after the stage that made it. If a stage raises, \<^verbatim>\<open>compile\<close>
  raises, the calls end with the stage that raised, no group is written, and a probe of
  the same group afterwards misses as it did before. If no stage raises and the metadata is
  serialised, the calls end with the put of the metadata, one \<^verbatim>\<open>put_group\<close> and the stub;
  this is the only group write of the run, and the mapping written holds the metadata
  file and the artifact of every stage run.
\<close>

theorem compile_group_commit:
  assumes src: "make_source X (files w) src0 signature constants config = Inr src"
    and be: "CUDABackend X device_type = Inr backend"
    and po: "parse_options backend kwargs = Inr options0"
    and uo: "update_options src options0 = Inr options"
    and ck: "cache_key X src backend options = Inr key"
    and h: "h = md5_hexdigest X key"
    and n: "n = src_name src @ ''.json''"
    and miss: "map_of (case groups w (h, n) of None \<Rightarrow> [] | Some g \<Rightarrow> g) n = None"
    and md0: "initial_metadata X device_type options signature config = Inr md0"
    and st: "add_stages backend extern_libs options = Inr stages"
    and ix: "index_of (map fst stages) (src_ext src) = Some i"
    and ir: "make_ir X src options = Inr m0"
    and low: "lowering h (src_name src) (drop i stages) m0 md0 evs res"
    and run: "compile X src0 device_type signature config constants extern_libs kwargs w = (r, w')"
  shows "list_all (\<lambda>e. is_Invoke e \<or> is_Put e) evs
     \<and> (\<forall>msg. res = Inl msg \<longrightarrow>
            r = Inl (External msg)
          \<and> calls w' = calls w @ [GetGroup h n, MakeIR src options] @ evs
          \<and> \<not> list_ex is_PutGroup (drop (length (calls w)) (calls w'))
          \<and> groups w' = groups w
          \<and> map_of (case fst (get_group h n w') of None \<Rightarrow> [] | Some g \<Rightarrow> g) n = None)
     \<and> (\<forall>m md js. res = Inr (m, md) \<and> json_dumps X md = Inr js \<longrightarrow>
            (\<exists>cg'. calls w' = calls w @ [GetGroup h n, MakeIR src options] @ evs
                       @ [Put h n (Text js), PutGroup h n cg', MakeLauncherStub src md]
                 \<and> length (filter is_PutGroup (drop (length (calls w)) (calls w'))) = 1
                 \<and> groups w' = (groups w)((h, n) \<mapsto> cg')
                 \<and> map_of cg' n = Some (storage_handle h n)
                 \<and> (\<forall>fmt \<in> set (map fst (drop i stages)).
                       map_of cg' (src_name src @ ''.'' @ fmt)
                         = Some (storage_handle h (src_name src @ ''.'' @ fmt)))))"
proof -
  let ?cg = "case groups w (h, n) of None \<Rightarrow> [] | Some g \<Rightarrow> g"
  let ?w1 = "log_call (GetGroup h n) w"
  note unf = compile_after_setup [OF src be po uo ck, where extern_libs = extern_libs, folded h n]
  from run [unfolded unf] miss
  have cm: "compile_miss X backend src device_type signature config extern_libs options h n
              ?cg ?w1 = (r, w')"
    by simp
  have w1: "calls ?w1 = calls w @ [GetGroup h n]" "groups ?w1 = groups w"
    by (simp_all add: log_call_def)
  note R = compile_miss_run [OF md0 st ix ir low cm, unfolded w1]
  note npg = lowering_no_PutGroup [OF low]
  have A: "list_all (\<lambda>e. is_Invoke e \<or> is_Put e) evs"
    using low by (rule lowering_no_other_calls)
  have B: "\<forall>msg. res = Inl msg \<longrightarrow>
            r = Inl (External msg)
          \<and> calls w' = calls w @ [GetGroup h n, MakeIR src options] @ evs
          \<and> \<not> list_ex is_PutGroup (drop (length (calls w)) (calls w'))
          \<and> groups w' = groups w
          \<and> map_of (case fst (get_group h n w') of None \<Rightarrow> [] | Some g \<Rightarrow> g) n = None"
  proof (intro allI impI)
    fix msg
    assume "res = Inl msg"
    with R have r: "r = Inl (External msg)"
      and c: "calls w' = calls w @ [GetGroup h n, MakeIR src options] @ evs"
      and g: "groups w' = groups w"
      by simp_all
    from c npg have "\<not> list_ex is_PutGroup (drop (length (calls w)) (calls w'))"
      by simp
    moreover from g miss
    have "map_of (case fst (get_group h n w') of None \<Rightarrow> [] | Some g \<Rightarrow> g) n = None"
      by (simp add: get_group_def)
    ultimately show "r = Inl (External msg)
          \<and> calls w' = calls w @ [GetGroup h n, MakeIR src options] @ evs
          \<and> \<not> list_ex is_PutGroup (drop (length (calls w)) (calls w'))
          \<and> groups w' = groups w
          \<and> map_of (case fst (get_group h n w') of None \<Rightarrow> [] | Some g \<Rightarrow> g) n = None"
      using r c g by simp
  qed
  have C: "\<forall>m md js. res = Inr (m, md) \<and> json_dumps X md = Inr js \<longrightarrow>
            (\<exists>cg'. calls w' = calls w @ [GetGroup h n, MakeIR src options] @ evs
                       @ [Put h n (Text js), PutGroup h n cg', MakeLauncherStub src md]
                 \<and> length (filter is_PutGroup (drop (length (calls w)) (calls w'))) = 1
                 \<and> groups w' = (groups w)((h, n) \<mapsto> cg')
                 \<and> map_of cg' n = Some (storage_handle h n)
                 \<and> (\<forall>fmt \<in> set (map fst (drop i stages)).
                       map_of cg' (src_name src @ ''.'' @ fmt)
                         = Some (storage_handle h (src_name src @ ''.'' @ fmt))))"
  proof (intro allI impI)
    fix m md js
    assume a: "res = Inr (m, md) \<and> json_dumps X md = Inr js"
    with R obtain cg' where
      c: "calls w' = calls w @ [GetGroup h n, MakeIR src options] @ evs
             @ [Put h n (Text js), PutGroup h n cg', MakeLauncherStub src md]"
      and g: "groups w' = (groups w)((h, n) \<mapsto> cg')"
      and k: "map_of cg' n = Some (storage_handle h n)"
      and f: "\<forall>fmt \<in> set (map fst (drop i stages)).
                       map_of cg' (src_name src @ ''.'' @ fmt)
                         = Some (storage_handle h (src_name src @ ''.'' @ fmt))"
      by auto
    from npg have "filter is_PutGroup evs = []"
      by (simp add: filter_empty_conv list_ex_iff)
    with c have "length (filter is_PutGroup (drop (length (calls w)) (calls w'))) = 1"
      by simp
    with c g k f show "\<exists>cg'. calls w' = calls w @ [GetGroup h n, MakeIR src options] @ evs
                       @ [Put h n (Text js), PutGroup h n cg', MakeLauncherStub src md]
                 \<and> length (filter is_PutGroup (drop (length (calls w)) (calls w'))) = 1
                 \<and> groups w' = (groups w)((h, n) \<mapsto> cg')
                 \<and> map_of cg' n = Some (storage_handle h n)
                 \<and> (\<forall>fmt \<in> set (map fst (drop i stages)).
                       map_of cg' (src_name src @ ''.'' @ fmt)
                         = Some (storage_handle h (src_name src @ ''.'' @ fmt)))"
      by blast
  qed
  show ?thesis
    by (intro conjI) (rule A, rule B, rule C)
qed

section \<open>The sample run\<close>

lemma lowering_lowering_calls:
  "lowering h name stages m md (fst (lowering_calls h name stages m md))
     (snd (lowering_calls h name stages m md))"
proof (induction stages arbitrary: m md)
  case Nil
  show ?case by (simp add: lowering_done)
next
  case (Cons st rest)
  obtain fmt lower where st: "st = (fmt, lower)" by (cases st)
  show ?case
  proof (cases "lower m md")
    case (Inl msg)
    with st show ?thesis by (simp add: lowering_raise)
  next
    case (Inr p)
    obtain m' md' where p: "p = (m', md')" by (cases p)
    have "lowering h name ((fmt, lower) # rest) m md
        (Invoke fmt m md # Put h (name @ ''.'' @ fmt) (Module m')
           # fst (lowering_calls h name rest m' md'))
        (snd (lowering_calls h name rest m' md'))"
    proof (rule lowering_step)
      show "lower m md = Inr (m', md')" using Inr p by simp
      show "lowering h name rest m' md' (fst (lowering_calls h name rest m' md'))
        (snd (lowering_calls h name rest m' md'))" by (rule Cons)
    qed
    with Inr p st show ?thesis
      by (simp add: split_beta)
  qed
qed


lemma sample_make_source_ttgir:
  "make_source (sample_externals broken) (files (sample_world ''ttgir'' text)) (SrcPath (''k.'' @ ''ttgir''))
     None None default_config = Inr (Ir (sample_ir ''ttgir'' text))"
  by (simp add: make_source_def IRSource_init_def read_text_def sample_world_def
      sample_externals_def sample_ir_def enumerate_from0_def Let_def)

lemma sample_make_source_ttir:
  "make_source (sample_externals broken) (files (sample_world ''ttir'' text)) (SrcPath (''k.'' @ ''ttir''))
     None None default_config = Inr (Ir (sample_ir ''ttir'' text))"
  by (simp add: make_source_def IRSource_init_def read_text_def sample_world_def
      sample_externals_def sample_ir_def enumerate_from0_def Let_def)

lemma sample_backend_of:
  "CUDABackend (sample_externals broken) device_type = Inr (sample_backend broken)"
  by (simp add: sample_externals_def)

lemma sample_parse_options:
  "parse_options (sample_backend broken) [] = Inr [(''num_warps'', VInt 4), (''num_ctas'', VInt 1)]"
  by (simp add: sample_backend_def dict_merge_def)

lemma sample_cache_key:
  "cache_key (sample_externals broken) (Ir (sample_ir ext text)) (sample_backend broken) options
     = Inr (''md5'' @ take 2 text @ ''-cuda-80-'' @ concat (map fst options) @ ''-TRITON_DEBUG=0'')"
  by (simp add: cache_key_def sample_externals_def sample_backend_def sample_ir_def)

lemma sample_run_hash:
  "md5_hexdigest (sample_externals broken)
     (''md5'' @ take 2 text @ ''-cuda-80-'' @ concat (map fst options) @ ''-TRITON_DEBUG=0'')
   = ''md5md''"
  by (simp add: sample_externals_def)

lemma sample_initial_metadata:
  "initial_metadata (sample_externals broken) (VTuple [VStr ''cuda'', VInt 80])
     [(''num_warps'', VInt v), (''num_ctas'', VInt 1)] None default_config
   = Inr (sample_md0 v)"
  by (simp add: initial_metadata_def sample_externals_def dict_merge_def sample_md0_def)

lemma sample_add_stages:
  "add_stages (sample_backend broken) libs options = Inr (sample_stages broken)"
  by (simp add: sample_backend_def)

lemma sample_index_ttgir:
  "index_of (map fst (sample_stages broken)) ''ttgir'' = Some 1"
  by (simp add: sample_stages_def)

lemma sample_index_ttir:
  "index_of (map fst (sample_stages broken)) ''ttir'' = Some 0"
  by (simp add: sample_stages_def)

lemma sample_make_ir:
  "make_ir (sample_externals broken) (Ir (sample_ir ext text)) options = Inr (''k.'' @ ext)"
  by (simp add: sample_externals_def sample_ir_def external_def)

lemma sample_lowering_ok:
  "lowering_calls ''md5md'' ''k'' (drop 1 (sample_stages [])) (''k.'' @ ''ttgir'') (sample_md0 v)
   = ([Invoke ''ttgir'' ''k.ttgir'' (sample_md0 v),
       Put ''md5md'' ''k.ttgir'' (Module ''ttgir<k.ttgir>''),
       Invoke ''ptx'' ''ttgir<k.ttgir>'' (sample_md0 v @ [(''last_stage'', VStr ''ttgir'')]),
       Put ''md5md'' ''k.ptx'' (Module ''ptx<ttgir<k.ttgir>>''),
       Invoke ''cubin'' ''ptx<ttgir<k.ttgir>>'' (sample_md0 v @ [(''last_stage'', VStr ''ptx'')]),
       Put ''md5md'' ''k.cubin'' (Module ''cubin<ptx<ttgir<k.ttgir>>>'')],
      Inr (''cubin<ptx<ttgir<k.ttgir>>>'', sample_md0 v @ [(''last_stage'', VStr ''cubin'')]))"
  by (simp add: sample_stages_def sample_stage_def sample_md0_def)

lemma sample_lowering_from_ttir:
  "lowering_calls ''md5md'' ''k'' (drop 0 (sample_stages [])) (''k.'' @ ''ttir'') (sample_md0 v)
   = ([Invoke ''ttir'' ''k.ttir'' (sample_md0 v),
       Put ''md5md'' ''k.ttir'' (Module ''ttir<k.ttir>''),
       Invoke ''ttgir'' ''ttir<k.ttir>'' (sample_md0 v @ [(''last_stage'', VStr ''ttir'')]),
       Put ''md5md'' ''k.ttgir'' (Module ''ttgir<ttir<k.ttir>>''),
       Invoke ''ptx'' ''ttgir<ttir<k.ttir>>'' (sample_md0 v @ [(''last_stage'', VStr ''ttgir'')]),
       Put ''md5md'' ''k.ptx'' (Module ''ptx<ttgir<ttir<k.ttir>>>''),
       Invoke ''cubin'' ''ptx<ttgir<ttir<k.ttir>>>''
         (sample_md0 v @ [(''last_stage'', VStr ''ptx'')]),
       Put ''md5md'' ''k.cubin'' (Module ''cubin<ptx<ttgir<ttir<k.ttir>>>>'')],
      Inr (''cubin<ptx<ttgir<ttir<k.ttir>>>>'',
           sample_md0 v @ [(''last_stage'', VStr ''cubin'')]))"
  by (simp add: sample_stages_def sample_stage_def sample_md0_def)

lemma sample_lowering_broken:
  "lowering_calls ''md5md'' ''k'' (drop 1 (sample_stages ''ptx'')) (''k.'' @ ''ttgir'') (sample_md0 v)
   = ([Invoke ''ttgir'' ''k.ttgir'' (sample_md0 v),
       Put ''md5md'' ''k.ttgir'' (Module ''ttgir<k.ttgir>''),
       Invoke ''ptx'' ''ttgir<k.ttgir>'' (sample_md0 v @ [(''last_stage'', VStr ''ttgir'')])],
      Inl ''failed'')"
  by (simp add: sample_stages_def sample_stage_def sample_md0_def)

lemma sample_show_dict:
  "show_dict (sample_md0 16 @ [(''last_stage'', VStr ''cubin'')])
   = ''{device_type:[cuda,80,],num_warps:16,num_ctas:1,TRITON_DEBUG:0,last_stage:cubin,}''"
  "show_dict (sample_md0 4 @ [(''last_stage'', VStr ''cubin'')])
   = ''{device_type:[cuda,80,],num_warps:4,num_ctas:1,TRITON_DEBUG:0,last_stage:cubin,}''"
  by code_simp+

section \<open>Resuming from a \<^verbatim>\<open>ttgir\<close> text\<close>

text \<open>
  Claim C6, as the code has it. Let the path name a text whose extension is \<^verbatim>\<open>ttgir\<close>, with
  exactly one \<^verbatim>\<open>num-warps\<close> attribute, of value 8, and no \<^verbatim>\<open>num-warp-groups-per-cta\<close>
  attribute. Refining sets \<^verbatim>\<open>num_warps\<close> of the options to 8. Let the option keys be
  distinct, the environment have no variable named \<^verbatim>\<open>num_warps\<close>, every stage leave the
  \<^verbatim>\<open>num_warps\<close> entry of the metadata as it is, the probe miss, and \<^verbatim>\<open>compile\<close> return a
  handle. Then the module is made with the refined options, the stages invoked are those
  from the first \<^verbatim>\<open>ttgir\<close> position of the chain on (none before it), and the metadata
  persisted under the metadata file has \<^verbatim>\<open>num_warps\<close> equal to 8.
\<close>

theorem compile_ttgir_warp_count:
  assumes ms: "make_source X (files w) (SrcPath p) signature constants config = Inr (Ir s)"
    and ext: "ir_ext s = ''ttgir''"
    and warps: "findall_attr ''num-warps'' (ir_src s) = [ds]"
    and eight: "int_of_digits ds = 8"
    and nogroups: "findall_attr ''num-warp-groups-per-cta'' (ir_src s) = []"
    and be: "CUDABackend X device_type = Inr backend"
    and po: "parse_options backend kwargs = Inr options0"
    and dk: "distinct (map fst options0)"
    and env: "''num_warps'' \<notin> fst ` set (get_env_vars X)"
    and st: "add_stages backend extern_libs (AList.update ''num_warps'' (VInt 8) options0)
               = Inr stages"
    and keeps: "\<forall>st \<in> set stages. stage_keeps ''num_warps'' (snd st)"
    and ck: "cache_key X (Ir s) backend (AList.update ''num_warps'' (VInt 8) options0) = Inr key"
    and h: "h = md5_hexdigest X key"
    and n: "n = ir_name s @ ''.json''"
    and miss: "map_of (case groups w (h, n) of None \<Rightarrow> [] | Some g \<Rightarrow> g) n = None"
    and run: "compile X (SrcPath p) device_type signature config constants extern_libs kwargs w
               = (Inr k, w')"
  shows "update_options (Ir s) options0 = Inr (AList.update ''num_warps'' (VInt 8) options0)
     \<and> (\<exists>i evs md js cg'.
           index_of (map fst stages) ''ttgir'' = Some i
         \<and> ''ttgir'' \<notin> set (map fst (take i stages))
         \<and> calls w' = calls w
              @ [GetGroup h n, MakeIR (Ir s) (AList.update ''num_warps'' (VInt 8) options0)]
              @ evs @ [Put h n (Text js), PutGroup h n cg', MakeLauncherStub (Ir s) md]
         \<and> invoked_formats evs = map fst (drop i stages)
         \<and> json_dumps X md = Inr js
         \<and> map_of md ''num_warps'' = Some (VInt 8)
         \<and> files w' (storage_handle h n) = Some (Text js))"
proof -
  let ?options = "AList.update ''num_warps'' (VInt 8) options0"
  let ?cg = "case groups w (h, n) of None \<Rightarrow> [] | Some g \<Rightarrow> g"
  let ?w1 = "log_call (GetGroup h n) w"
  have uo: "update_options (Ir s) options0 = Inr ?options"
    using ext warps eight nogroups by (simp add: get_num_warps_from_ir_str_def)
  have n': "n = src_name (Ir s) @ ''.json''"
    using n by simp
  note unf = compile_after_setup [OF ms be po uo ck, where extern_libs = extern_libs,
      folded h n']
  from run [unfolded unf] miss
  have cm: "compile_miss X backend (Ir s) device_type signature config extern_libs ?options h n
              ?cg ?w1 = (Inr k, w')"
    by simp
  have w1: "calls ?w1 = calls w @ [GetGroup h n]"
    by (simp add: log_call_def)
  obtain md0 where md0: "initial_metadata X device_type ?options signature config = Inr md0"
    using cm by (cases "initial_metadata X device_type ?options signature config")
      (simp_all add: compile_miss_def)
  obtain i where ix: "index_of (map fst stages) (src_ext (Ir s)) = Some i"
    using cm md0 st
    by (cases "index_of (map fst stages) (src_ext (Ir s))")
      (simp_all add: compile_miss_def external_def)
  obtain m0 where ir: "make_ir X (Ir s) ?options = Inr m0"
    using cm md0 st ix
    by (cases "make_ir X (Ir s) ?options") (simp_all add: compile_miss_def external_def Let_def)
  obtain evs res where low: "lowering h (src_name (Ir s)) (drop i stages) m0 md0 evs res"
    using lowering_total [of h "src_name (Ir s)" "drop i stages" m0 md0] by blast
  note R = compile_miss_run [OF md0 st ix ir low cm, unfolded w1]
  from R obtain m md where res: "res = Inr (m, md)"
    by (cases res) auto
  from R res obtain js where js: "json_dumps X md = Inr js"
    by (cases "json_dumps X md") auto
  from R res js obtain cg' where
    c: "calls w' = calls w @ [GetGroup h n, MakeIR (Ir s) ?options] @ evs
          @ [Put h n (Text js), PutGroup h n cg', MakeLauncherStub (Ir s) md]"
    and f: "files w' (storage_handle h n) = Some (Text js)"
    by auto
  from lowering_invoked [OF low] res have inv: "invoked_formats evs = map fst (drop i stages)"
    by auto
  from ix ext have ix': "index_of (map fst stages) ''ttgir'' = Some i"
    by simp
  from index_of_Some [OF ix'] have skip: "''ttgir'' \<notin> set (map fst (take i stages))"
    by (simp add: take_map)
  have "distinct (map fst ?options)"
    using dk by (rule distinct_update)
  moreover have "map_of ?options ''num_warps'' = Some (VInt 8)"
    by (simp add: update_conv')
  ultimately have k0: "map_of md0 ''num_warps'' = Some (VInt 8)"
    using initial_metadata_key [OF md0] env by simp
  have "\<forall>st \<in> set (drop i stages). stage_keeps ''num_warps'' (snd st)"
    using keeps by (meson in_set_dropD)
  from lowering_keeps [OF low this res] k0
  have k1: "map_of md ''num_warps'' = Some (VInt 8)"
    by simp
  from ix' skip c inv js k1 f have "\<exists>i evs md js cg'.
           index_of (map fst stages) ''ttgir'' = Some i
         \<and> ''ttgir'' \<notin> set (map fst (take i stages))
         \<and> calls w' = calls w
              @ [GetGroup h n, MakeIR (Ir s) (AList.update ''num_warps'' (VInt 8) options0)]
              @ evs @ [Put h n (Text js), PutGroup h n cg', MakeLauncherStub (Ir s) md]
         \<and> invoked_formats evs = map fst (drop i stages)
         \<and> json_dumps X md = Inr js
         \<and> map_of md ''num_warps'' = Some (VInt 8)
         \<and> files w' (storage_handle h n) = Some (Text js)"
    by blast
  with uo show ?thesis by blast
qed

lemma sample_world_simps:
  "files (sample_world ext text) = [''k.'' @ ext \<mapsto> Text text]"
  "groups (sample_world ext text) = Map.empty"
  "calls (sample_world ext text) = []"
  by (simp_all add: sample_world_def)

lemma sample_src_name:
  "src_name (Ir (sample_ir ext text)) = ''k''"
  "src_ext (Ir (sample_ir ext text)) = ext"
  "ir_name (sample_ir ext text) = ''k''"
  "ir_ext (sample_ir ext text) = ext"
  "ir_src (sample_ir ext text) = text"
  by (simp_all add: sample_ir_def)

lemma sample_ext_fields:
  "json_dumps (sample_externals broken) md = Inr (show_dict md)"
  "json_loads (sample_externals broken) text = Inr [(''name'', VStr ''k''), (''shared'', VInt 0)]"
  "make_launcher_stub (sample_backend broken) src md = Inr ''launcher.so''"
  "load_launcher (sample_externals broken) p = Inr 0"
  "binary_ext (sample_externals broken) = ''cubin''"
  "module_text (sample_externals broken) m = m"
  "path_suffix (sample_externals broken) p = dropWhile (\<lambda>c. c \<noteq> CHR ''.'') p"
  "glob_siblings (sample_externals broken) fs p
     = filter (\<lambda>q. fs q \<noteq> None) [take (length p - 4) p @ ''cubin'']"
  "get_env_vars (sample_externals broken) = [(''TRITON_DEBUG'', ''0'')]"
  "md5_hexdigest (sample_externals broken) s = ''md5'' @ take 2 s"
  by (simp_all add: sample_externals_def sample_backend_def)

lemma sample_update_options_8:
  "update_options (Ir (sample_ir ''ttgir'' ir_warps_8))
     [(''num_warps'', VInt 4), (''num_ctas'', VInt 1)]
   = Inr [(''num_warps'', VInt 8), (''num_ctas'', VInt 1)]"
  by (simp add: sample_ir_def sample_text_8)

lemma sample_text_8_groups_2: "get_num_warps_from_ir_str ir_warps_8_groups_2 = Inr 16"
  by code_simp

lemma sample_findall_8_groups_2: "findall_attr ''num-warps'' ir_warps_8_groups_2 = [''8'']"
  by code_simp

lemma sample_update_options_16:
  "update_options (Ir (sample_ir ''ttgir'' ir_warps_8_groups_2))
     [(''num_warps'', VInt 4), (''num_ctas'', VInt 1)]
   = Inr [(''num_warps'', VInt 16), (''num_ctas'', VInt 1)]"
  by (simp add: sample_ir_def sample_text_8_groups_2)

lemma sample_update_options_ttir:
  "update_options (Ir (sample_ir ''ttir'' text))
     [(''num_warps'', VInt 4), (''num_ctas'', VInt 1)]
   = Inr [(''num_warps'', VInt 4), (''num_ctas'', VInt 1)]"
  by (simp add: sample_ir_def)

lemma sample_run_unfold:
  assumes src: "make_source (sample_externals b) (files (sample_world ext t))
        (SrcPath (''k.'' @ ext)) None None default_config = Inr (Ir (sample_ir ext t))"
    and uo: "update_options (Ir (sample_ir ext t))
        [(''num_warps'', VInt 4), (''num_ctas'', VInt 1)]
      = Inr [(''num_warps'', VInt v), (''num_ctas'', VInt 1)]"
  shows "compile_miss (sample_externals b) (sample_backend b) (Ir (sample_ir ext t))
           (VTuple [VStr ''cuda'', VInt 80]) None default_config VNone
           [(''num_warps'', VInt v), (''num_ctas'', VInt 1)] ''md5md'' ''k.json'' []
           (log_call (GetGroup ''md5md'' ''k.json'') (sample_world ext t))
         = (fst (sample_compile b ext (sample_world ext t)),
            snd (sample_compile b ext (sample_world ext t)))"
proof -
  note unf = compile_after_setup [OF src sample_backend_of sample_parse_options uo
      sample_cache_key, where extern_libs = VNone and device_type = "VTuple [VStr ''cuda'', VInt 80]"]
  show ?thesis
    unfolding sample_compile_def unf
    by (simp add: sample_ext_fields sample_src_name sample_world_simps)
qed

lemma sample_low:
  assumes "lowering_calls ''md5md'' ''k'' stages m md = (evs, res)"
  shows "lowering ''md5md'' (src_name (Ir (sample_ir ext t))) stages m md evs res"
  using lowering_lowering_calls [of "''md5md''" "''k''" stages m md] assms
  by (simp add: sample_src_name)

lemma sample_ix:
  "index_of (map fst (sample_stages b)) ext = Some i \<Longrightarrow>
     index_of (map fst (sample_stages b)) (src_ext (Ir (sample_ir ext t))) = Some i"
  by (simp add: sample_src_name)

text \<open>
  The claim C6 as the specification states it fails in two ways. A \<^verbatim>\<open>ttgir\<close> text with the
  warp count 8 and two warp groups for each CTA is persisted with \<^verbatim>\<open>num_warps\<close> 16: the
  warp count is multiplied by the number of groups (lines 91 to 98). A \<^verbatim>\<open>ttir\<close> text with
  the warp count 8 is persisted with the \<^verbatim>\<open>num_warps\<close> of the options, here 4: only a
  \<^verbatim>\<open>ttgir\<close> source is refined (line 152).
\<close>

theorem compile_warp_count_counterexample:
  "findall_attr ''num-warps'' ir_warps_8_groups_2 = [''8'']
   \<and> files (snd (sample_compile [] ''ttgir'' (sample_world ''ttgir'' ir_warps_8_groups_2)))
        ''md5md/k.json''
      = Some (Text
          ''{device_type:[cuda,80,],num_warps:16,num_ctas:1,TRITON_DEBUG:0,last_stage:cubin,}'')
   \<and> findall_attr ''num-warps'' ir_warps_8 = [''8'']
   \<and> files (snd (sample_compile [] ''ttir'' (sample_world ''ttir'' ir_warps_8)))
        ''md5md/k.json''
      = Some (Text
          ''{device_type:[cuda,80,],num_warps:4,num_ctas:1,TRITON_DEBUG:0,last_stage:cubin,}'')"
proof -
  note R3 = compile_miss_persisted(1) [OF sample_initial_metadata sample_add_stages
      sample_ix [OF sample_index_ttgir] sample_make_ir sample_low [OF sample_lowering_ok]
      sample_run_unfold [OF sample_make_source_ttgir sample_update_options_16]
      refl sample_ext_fields(1)]
  have a: "files (snd (sample_compile [] ''ttgir'' (sample_world ''ttgir'' ir_warps_8_groups_2)))
        ''md5md/k.json''
      = Some (Text
          ''{device_type:[cuda,80,],num_warps:16,num_ctas:1,TRITON_DEBUG:0,last_stage:cubin,}'')"
    unfolding R3 by (simp add: sample_show_dict storage_handle_def)
  note R4 = compile_miss_persisted(1) [OF sample_initial_metadata sample_add_stages
      sample_ix [OF sample_index_ttir] sample_make_ir sample_low [OF sample_lowering_from_ttir]
      sample_run_unfold [OF sample_make_source_ttir sample_update_options_ttir]
      refl sample_ext_fields(1)]
  have b: "files (snd (sample_compile [] ''ttir'' (sample_world ''ttir'' ir_warps_8)))
        ''md5md/k.json''
      = Some (Text
          ''{device_type:[cuda,80,],num_warps:4,num_ctas:1,TRITON_DEBUG:0,last_stage:cubin,}'')"
    unfolding R4 by (simp add: sample_show_dict storage_handle_def)
  from a b sample_findall_8_groups_2 sample_findall_warps_8 show ?thesis
    by blast
qed

section \<open>The claims about \<^verbatim>\<open>compile\<close> on the sample run\<close>

lemma sample_run_eq:
  "compile (sample_externals b) (SrcPath (''k.'' @ ext)) (VTuple [VStr ''cuda'', VInt 80]) None
     default_config None VNone [] w
   = (fst (sample_compile b ext w), snd (sample_compile b ext w))"
  by (simp add: sample_compile_def)

lemma sample_h: "''md5md'' = md5_hexdigest (sample_externals b)
    (''md5'' @ take 2 text @ ''-cuda-80-'' @ concat (map fst options) @ ''-TRITON_DEBUG=0'')"
  by (rule sample_run_hash [symmetric])

lemma sample_n: "''k.json'' = src_name (Ir (sample_ir ext t)) @ ''.json''"
  by (simp add: sample_src_name)

lemma sample_miss:
  "map_of (case groups (sample_world ext t) (''md5md'', ''k.json'') of
             None \<Rightarrow> [] | Some g \<Rightarrow> g) ''k.json'' = None"
  by (simp add: sample_world_simps)

lemma sample_run_result:
  "fst (sample_compile [] ''ttgir'' (sample_world ''ttgir'' ir_warps_8))
   = Inr \<lparr> c_wrapper = 0, metadata = [(''name'', VStr ''k''), (''shared'', VInt 0)],
           asm = [(''cubin'', ''cubin<ptx<ttgir<k.ttgir>>>'')],
           kernel = ''cubin<ptx<ttgir<k.ttgir>>>'',
           h_module = None, h_function = None, n_regs = None, n_spills = None \<rparr>"
proof -
  note P = compile_miss_persisted [OF sample_initial_metadata sample_add_stages
      sample_ix [OF sample_index_ttgir] sample_make_ir sample_low [OF sample_lowering_ok]
      sample_run_unfold [OF sample_make_source_ttgir sample_update_options_8]
      refl sample_ext_fields(1)]
  note r = P(2) [OF sample_ext_fields(3)]
  show ?thesis
    unfolding r P(1)
    by (simp add: CompiledKernel_init_def read_text_def external_def sample_ext_fields
        storage_handle_def sample_world_simps log_call_def)
qed

theorem compile_group_commit_witness:
  "fst (sample_compile ''ptx'' ''ttgir'' (sample_world ''ttgir'' ir_warps_8))
     = Inl (External ''failed'')
   \<and> calls (snd (sample_compile ''ptx'' ''ttgir'' (sample_world ''ttgir'' ir_warps_8)))
     = [GetGroup ''md5md'' ''k.json'',
        MakeIR (Ir (sample_ir ''ttgir'' ir_warps_8)) [(''num_warps'', VInt 8), (''num_ctas'', VInt 1)],
        Invoke ''ttgir'' ''k.ttgir'' (sample_md0 8),
        Put ''md5md'' ''k.ttgir'' (Module ''ttgir<k.ttgir>''),
        Invoke ''ptx'' ''ttgir<k.ttgir>'' (sample_md0 8 @ [(''last_stage'', VStr ''ttgir'')])]
   \<and> groups (snd (sample_compile ''ptx'' ''ttgir'' (sample_world ''ttgir'' ir_warps_8)))
     = Map.empty
   \<and> map_of (case fst (get_group ''md5md'' ''k.json''
                 (snd (sample_compile ''ptx'' ''ttgir'' (sample_world ''ttgir'' ir_warps_8)))) of
               None \<Rightarrow> [] | Some g \<Rightarrow> g) ''k.json'' = None
   \<and> length (filter is_PutGroup
        (calls (snd (sample_compile [] ''ttgir'' (sample_world ''ttgir'' ir_warps_8))))) = 1"
proof -
  note A = compile_group_commit [OF sample_make_source_ttgir sample_backend_of sample_parse_options
      sample_update_options_8 sample_cache_key sample_h sample_n sample_miss
      sample_initial_metadata sample_add_stages sample_ix [OF sample_index_ttgir]
      sample_make_ir sample_low [OF sample_lowering_broken] sample_run_eq]
  note B = compile_group_commit [OF sample_make_source_ttgir sample_backend_of sample_parse_options
      sample_update_options_8 sample_cache_key sample_h sample_n sample_miss
      sample_initial_metadata sample_add_stages sample_ix [OF sample_index_ttgir]
      sample_make_ir sample_low [OF sample_lowering_ok] sample_run_eq]
  from A have a: "fst (sample_compile ''ptx'' ''ttgir'' (sample_world ''ttgir'' ir_warps_8))
     = Inl (External ''failed'')
   \<and> calls (snd (sample_compile ''ptx'' ''ttgir'' (sample_world ''ttgir'' ir_warps_8)))
     = [GetGroup ''md5md'' ''k.json'',
        MakeIR (Ir (sample_ir ''ttgir'' ir_warps_8)) [(''num_warps'', VInt 8), (''num_ctas'', VInt 1)],
        Invoke ''ttgir'' ''k.ttgir'' (sample_md0 8),
        Put ''md5md'' ''k.ttgir'' (Module ''ttgir<k.ttgir>''),
        Invoke ''ptx'' ''ttgir<k.ttgir>'' (sample_md0 8 @ [(''last_stage'', VStr ''ttgir'')])]
   \<and> groups (snd (sample_compile ''ptx'' ''ttgir'' (sample_world ''ttgir'' ir_warps_8)))
     = Map.empty
   \<and> map_of (case fst (get_group ''md5md'' ''k.json''
                 (snd (sample_compile ''ptx'' ''ttgir'' (sample_world ''ttgir'' ir_warps_8)))) of
               None \<Rightarrow> [] | Some g \<Rightarrow> g) ''k.json'' = None"
    by (simp add: sample_world_simps)
  from B have b: "length (filter is_PutGroup
        (calls (snd (sample_compile [] ''ttgir'' (sample_world ''ttgir'' ir_warps_8))))) = 1"
    by (auto simp add: sample_world_simps sample_ext_fields)
  from a b show ?thesis by blast
qed

theorem compile_pipeline_on_miss_witness:
  "invoked_formats (calls (snd (sample_compile [] ''ttgir'' (sample_world ''ttgir'' ir_warps_8))))
     = [''ttgir'', ''ptx'', ''cubin'']
   \<and> fst (sample_stages [] ! 1) = ''ttgir''
   \<and> ''ttgir'' \<notin> set (map fst (take 1 (sample_stages [])))
   \<and> (\<exists>rest. calls (snd (sample_compile [] ''ttgir'' (sample_world ''ttgir'' ir_warps_8)))
        = [GetGroup ''md5md'' ''k.json'',
           MakeIR (Ir (sample_ir ''ttgir'' ir_warps_8))
             [(''num_warps'', VInt 8), (''num_ctas'', VInt 1)],
           Invoke ''ttgir'' ''k.ttgir'' (sample_md0 8),
           Put ''md5md'' ''k.ttgir'' (Module ''ttgir<k.ttgir>''),
           Invoke ''ptx'' ''ttgir<k.ttgir>'' (sample_md0 8 @ [(''last_stage'', VStr ''ttgir'')]),
           Put ''md5md'' ''k.ptx'' (Module ''ptx<ttgir<k.ttgir>>''),
           Invoke ''cubin'' ''ptx<ttgir<k.ttgir>>''
             (sample_md0 8 @ [(''last_stage'', VStr ''ptx'')]),
           Put ''md5md'' ''k.cubin'' (Module ''cubin<ptx<ttgir<k.ttgir>>>'')] @ rest
        \<and> \<not> list_ex is_Invoke rest)"
proof -
  note A = compile_pipeline_on_miss [OF sample_make_source_ttgir sample_backend_of sample_parse_options
      sample_update_options_8 sample_cache_key sample_h sample_n sample_miss
      sample_initial_metadata sample_add_stages sample_ix [OF sample_index_ttgir]
      sample_make_ir sample_low [OF sample_lowering_ok] sample_run_eq]
  from A show ?thesis
    by (simp add: sample_world_simps sample_src_name invoked_formats_Cons)
qed

theorem compile_ttgir_warp_count_witness:
  "update_options (Ir (sample_ir ''ttgir'' ir_warps_8))
      [(''num_warps'', VInt 4), (''num_ctas'', VInt 1)]
     = Inr [(''num_warps'', VInt 8), (''num_ctas'', VInt 1)]
   \<and> (\<exists>md js. json_dumps (sample_externals []) md = Inr js
         \<and> map_of md ''num_warps'' = Some (VInt 8)
         \<and> files (snd (sample_compile [] ''ttgir'' (sample_world ''ttgir'' ir_warps_8)))
              ''md5md/k.json'' = Some (Text js))
   \<and> (\<exists>evs md js cg'.
         calls (snd (sample_compile [] ''ttgir'' (sample_world ''ttgir'' ir_warps_8)))
           = [GetGroup ''md5md'' ''k.json'',
              MakeIR (Ir (sample_ir ''ttgir'' ir_warps_8))
                [(''num_warps'', VInt 8), (''num_ctas'', VInt 1)]]
             @ evs @ [Put ''md5md'' ''k.json'' (Text js), PutGroup ''md5md'' ''k.json'' cg',
                      MakeLauncherStub (Ir (sample_ir ''ttgir'' ir_warps_8)) md]
         \<and> invoked_formats evs = [''ttgir'', ''ptx'', ''cubin''])"
proof -
  have keeps: "\<forall>st \<in> set (sample_stages []). stage_keeps ''num_warps'' (snd st)"
    by (auto simp: sample_stages_def stage_keeps_def sample_stage_def update_conv')
  have run: "(compile (sample_externals []) (SrcPath (''k.'' @ ''ttgir''))
      (VTuple [VStr ''cuda'', VInt 80]) None default_config None VNone []
      (sample_world ''ttgir'' ir_warps_8)
      :: (error + (nat, nat, nat) CompiledKernel) \<times> string world)
    = (Inr \<lparr> c_wrapper = 0, metadata = [(''name'', VStr ''k''), (''shared'', VInt 0)],
           asm = [(''cubin'', ''cubin<ptx<ttgir<k.ttgir>>>'')],
           kernel = ''cubin<ptx<ttgir<k.ttgir>>>'',
           h_module = None, h_function = None, n_regs = None, n_spills = None \<rparr>,
       snd (sample_compile [] ''ttgir'' (sample_world ''ttgir'' ir_warps_8)))"
    by (simp only: sample_run_eq sample_run_result)
  have st: "add_stages (sample_backend []) VNone
      (AList.update ''num_warps'' (VInt 8) [(''num_warps'', VInt 4), (''num_ctas'', VInt 1)])
    = Inr (sample_stages [])"
    by (rule sample_add_stages)
  have n: "''k.json'' = ir_name (sample_ir ''ttgir'' ir_warps_8) @ ''.json''"
    by (simp add: sample_src_name)
  have wa: "findall_attr ''num-warps'' (ir_src (sample_ir ''ttgir'' ir_warps_8)) = [''8'']"
    by (simp add: sample_src_name sample_findall_warps_8)
  have gr: "findall_attr ''num-warp-groups-per-cta'' (ir_src (sample_ir ''ttgir'' ir_warps_8)) = []"
    by (simp add: sample_src_name sample_findall_groups_none)
  note A = compile_ttgir_warp_count [OF sample_make_source_ttgir sample_src_name(4) wa int_of_digits_samples(1) gr
      sample_backend_of sample_parse_options _ _ st keeps sample_cache_key sample_h n
      sample_miss run]
  have dk: "distinct (map fst [(''num_warps'', VInt 4), (''num_ctas'', VInt 1)])"
    by simp
  have env: "''num_warps'' \<notin> fst ` set (get_env_vars (sample_externals []))"
    by (simp add: sample_ext_fields)
  note B = A [OF dk env]
  from B show ?thesis
    by (simp add: sample_world_simps sample_stages_def storage_handle_def) blast
qed

lemma sample_hit_world_simps:
  "files sample_hit_world
     = [''k.ttgir'' \<mapsto> Text ir_warps_8, ''md5md/k.json'' \<mapsto> Text ''{}'',
        ''md5md/k.cubin'' \<mapsto> Module ''ELF'']"
  "groups sample_hit_world
     = [(''md5md'', ''k.json'') \<mapsto>
          [(''k.cubin'', ''md5md/k.cubin''), (''k.json'', ''md5md/k.json'')]]"
  "calls sample_hit_world = []"
  by (simp_all add: sample_hit_world_def)

lemma sample_hit_source:
  "make_source (sample_externals broken) (files sample_hit_world) (SrcPath (''k.'' @ ''ttgir''))
     None None default_config = Inr (Ir (sample_ir ''ttgir'' ir_warps_8))"
  by (simp add: make_source_def IRSource_init_def read_text_def sample_hit_world_def
      sample_externals_def sample_ir_def enumerate_from0_def Let_def)

lemma sample_hit_init:
  "CompiledKernel_init (sample_externals []) (files sample_hit_world) ''launcher.so''
     ''md5md/k.json''
   = Inr \<lparr> c_wrapper = 0, metadata = [(''name'', VStr ''k''), (''shared'', VInt 0)],
           asm = [(''cubin'', ''ELF'')], kernel = ''ELF'',
           h_module = None, h_function = None, n_regs = None, n_spills = None \<rparr>"
  by (simp add: CompiledKernel_init_def read_text_def external_def sample_ext_fields
      sample_hit_world_simps)

theorem compile_cache_hit_witness:
  "fst (sample_compile [] ''ttgir'' sample_hit_world)
     = Inr \<lparr> c_wrapper = 0, metadata = [(''name'', VStr ''k''), (''shared'', VInt 0)],
             asm = [(''cubin'', ''ELF'')], kernel = ''ELF'',
             h_module = None, h_function = None, n_regs = None, n_spills = None \<rparr>
   \<and> calls (snd (sample_compile [] ''ttgir'' sample_hit_world))
     = [GetGroup ''md5md'' ''k.json'',
        MakeLauncherStub (Ir (sample_ir ''ttgir'' ir_warps_8))
          [(''name'', VStr ''k''), (''shared'', VInt 0)]]
   \<and> files (snd (sample_compile [] ''ttgir'' sample_hit_world)) = files sample_hit_world
   \<and> groups (snd (sample_compile [] ''ttgir'' sample_hit_world)) = groups sample_hit_world"
proof -
  note T = compile_cache_hit [OF sample_hit_source sample_backend_of sample_parse_options
      sample_update_options_8 sample_cache_key sample_h sample_n sample_run_eq]
  have g: "groups sample_hit_world (''md5md'', ''k.json'')
        = Some [(''k.cubin'', ''md5md/k.cubin''), (''k.json'', ''md5md/k.json'')]
      \<and> map_of [(''k.cubin'', ''md5md/k.cubin''), (''k.json'', ''md5md/k.json'')] ''k.json''
        = Some ''md5md/k.json''"
    by (simp add: sample_hit_world_simps)
  note T1 = T [THEN conjunct1, THEN spec, THEN spec, THEN mp, OF g]
  have rd: "read_text (sample_externals []) (files sample_hit_world) ''md5md/k.json'' = Inr ''{}''
      \<and> json_loads (sample_externals []) ''{}'' = Inr [(''name'', VStr ''k''), (''shared'', VInt 0)]
      \<and> make_launcher_stub (sample_backend []) (Ir (sample_ir ''ttgir'' ir_warps_8))
           [(''name'', VStr ''k''), (''shared'', VInt 0)] = Inr ''launcher.so''"
    by (simp add: read_text_def sample_hit_world_simps sample_ext_fields)
  from T1 have a: "files (snd (sample_compile [] ''ttgir'' sample_hit_world))
      = files sample_hit_world"
    and b: "groups (snd (sample_compile [] ''ttgir'' sample_hit_world))
      = groups sample_hit_world"
    by blast+
  from T1 have "\<forall>js md so_path.
      read_text (sample_externals []) (files sample_hit_world) ''md5md/k.json'' = Inr js
      \<and> json_loads (sample_externals []) js = Inr md
      \<and> make_launcher_stub (sample_backend []) (Ir (sample_ir ''ttgir'' ir_warps_8)) md
          = Inr so_path \<longrightarrow>
      calls (snd (sample_compile [] ''ttgir'' sample_hit_world))
        = calls sample_hit_world
          @ [GetGroup ''md5md'' ''k.json'',
             MakeLauncherStub (Ir (sample_ir ''ttgir'' ir_warps_8)) md]
      \<and> fst (sample_compile [] ''ttgir'' sample_hit_world)
        = CompiledKernel_init (sample_externals []) (files sample_hit_world) so_path
            ''md5md/k.json''"
    by blast
  from this [THEN spec, THEN spec, THEN spec, THEN mp, OF rd]
  have c: "calls (snd (sample_compile [] ''ttgir'' sample_hit_world))
        = [GetGroup ''md5md'' ''k.json'',
           MakeLauncherStub (Ir (sample_ir ''ttgir'' ir_warps_8))
             [(''name'', VStr ''k''), (''shared'', VInt 0)]]"
    and d: "fst (sample_compile [] ''ttgir'' sample_hit_world)
        = Inr \<lparr> c_wrapper = 0, metadata = [(''name'', VStr ''k''), (''shared'', VInt 0)],
             asm = [(''cubin'', ''ELF'')], kernel = ''ELF'',
             h_module = None, h_function = None, n_regs = None, n_spills = None \<rparr>"
    by (simp_all add: sample_hit_world_simps(3) sample_hit_init)
  from a b c d show ?thesis by blast
qed

end
